theory Spec2Isabelle
  imports Main "HOL-Library.Sublist"
begin

section \<open>JavaScript values and strings\<close>

text \<open>
  The program is a TypeScript command-line tool (\<^verbatim>\<open>my-cli\<close>): a config store
  (\<^verbatim>\<open>lib/config.ts\<close>), a shell adapter around \<^verbatim>\<open>git\<close> and \<^verbatim>\<open>gh\<close>
  (\<^verbatim>\<open>lib/git.ts\<close>), an AI provider client (\<^verbatim>\<open>lib/ai.ts\<close>), prompts
  (\<^verbatim>\<open>lib/prompt.ts\<close>) and the command handlers (\<^verbatim>\<open>index.ts\<close>).

  Strings are \<^typ>\<open>string\<close>: one \<^typ>\<open>char\<close> per code unit, for code units up to
  0xFF. Console output (\<^verbatim>\<open>console.log\<close>, \<^verbatim>\<open>chalk\<close>) is not part of the model.
\<close>

text \<open>
  The white space and line terminators that \<^verbatim>\<open>String.prototype.trim\<close> strips, among
  the code units up to 0xFF: TAB, LF, VT, FF, CR, SP and NBSP.
\<close>

definition is_js_whitespace :: "char \<Rightarrow> bool" where
  "is_js_whitespace c =
     (c = CHR 0x09 \<or> c = CHR 0x0A \<or> c = CHR 0x0B \<or> c = CHR 0x0C \<or>
      c = CHR 0x0D \<or> c = CHR 0x20 \<or> c = CHR 0xA0)"

text \<open>\<^verbatim>\<open>s.trim()\<close>\<close>

definition trim :: "string \<Rightarrow> string" where
  "trim s = rev (dropWhile is_js_whitespace (rev (dropWhile is_js_whitespace s)))"

text \<open>\<^verbatim>\<open>s.includes(pat)\<close>: \<open>pat\<close> occurs in \<open>s\<close> at some position.\<close>

fun js_includes :: "string \<Rightarrow> string \<Rightarrow> bool" where
  "js_includes [] pat = (pat = [])"
| "js_includes (c # cs) pat = (prefix pat (c # cs) \<or> js_includes cs pat)"

text \<open>
  \<^verbatim>\<open>s.replace(pat, rep)\<close> with a string pattern, and a replacement with no
  \<^verbatim>\<open>$\<close> in it: only the first (leftmost) occurrence of \<open>pat\<close> is replaced; a
  string without an occurrence is returned as it is.
\<close>

fun replace_first :: "string \<Rightarrow> string \<Rightarrow> string \<Rightarrow> string" where
  "replace_first pat rep [] = (if pat = [] then rep else [])"
| "replace_first pat rep (c # cs) =
     (if prefix pat (c # cs) then rep @ drop (length pat) (c # cs)
      else c # replace_first pat rep cs)"

text \<open>The decimal digits of a number, as a template literal prints it.\<close>

fun decimal :: "nat \<Rightarrow> string" where
  "decimal n =
     (if n < 10 then [''0123456789'' ! n]
      else decimal (n div 10) @ [''0123456789'' ! (n mod 10)])"

declare decimal.simps [simp del]

text \<open>
  A value as \<^verbatim>\<open>JSON.parse\<close> (and axios, for a JSON response) produces it, with
  \<^verbatim>\<open>undefined\<close> added: the result of reading a property that is not there. Numbers
  are the integral ones.
\<close>

datatype json =
    JUndefined
  | JNull
  | JBool bool
  | JNum int
  | JStr string
  | JArr "json list"
  | JObj "(string \<times> json) list"

text \<open>
  Truthiness, as \<^verbatim>\<open>!text\<close> tests it: \<^verbatim>\<open>undefined\<close>, \<^verbatim>\<open>null\<close>, \<^verbatim>\<open>false\<close>,
  \<^verbatim>\<open>0\<close> and the empty string are falsy; every array and object is truthy.
\<close>

fun truthy :: "json \<Rightarrow> bool" where
  "truthy JUndefined = False"
| "truthy JNull = False"
| "truthy (JBool b) = b"
| "truthy (JNum n) = (n \<noteq> 0)"
| "truthy (JStr s) = (s \<noteq> [])"
| "truthy (JArr xs) = True"
| "truthy (JObj kvs) = True"

text \<open>
  One step of an optional chain: \<^verbatim>\<open>v?.name\<close> is \<open>Prop name\<close> and \<^verbatim>\<open>v?.[i]\<close> is
  \<open>At i\<close>. On \<^verbatim>\<open>undefined\<close> and \<^verbatim>\<open>null\<close> the chain yields \<^verbatim>\<open>undefined\<close>; on any
  other value it is a property read, which never throws. \<open>Prop\<close> is for names that are
  not built-in members of arrays or strings (the source reads \<^verbatim>\<open>candidates\<close>,
  \<^verbatim>\<open>content\<close>, \<^verbatim>\<open>parts\<close>, \<^verbatim>\<open>text\<close>, \<^verbatim>\<open>choices\<close> and \<^verbatim>\<open>message\<close>). An index
  read on a string gives the one-character string at that position, and on an object
  the property named by the index in decimal.
\<close>

datatype access = Prop string | At nat

fun own_property :: "(string \<times> json) list \<Rightarrow> string \<Rightarrow> json" where
  "own_property kvs name = (case map_of kvs name of Some v \<Rightarrow> v | None \<Rightarrow> JUndefined)"

fun optional_access :: "json \<Rightarrow> access \<Rightarrow> json" where
  "optional_access (JObj kvs) (Prop name) = own_property kvs name"
| "optional_access (JObj kvs) (At i) = own_property kvs (decimal i)"
| "optional_access (JArr xs) (At i) = (if i < length xs then xs ! i else JUndefined)"
| "optional_access (JStr s) (At i) = (if i < length s then JStr [s ! i] else JUndefined)"
| "optional_access v a = JUndefined"

text \<open>\<^verbatim>\<open>data?.a?.[0]?.b\<close> is \<open>optional_chain data [Prop a, At 0, Prop b]\<close>.\<close>

definition optional_chain :: "json \<Rightarrow> access list \<Rightarrow> json" where
  "optional_chain v path = foldl optional_access v path"

text \<open>
  What the program throws: an \<^verbatim>\<open>Error\<close>, a \<^verbatim>\<open>TypeError\<close> or a
  \<^verbatim>\<open>SyntaxError\<close>, with its message.
\<close>

datatype js_error = Error string | TypeError string | SyntaxError string

text \<open>
  \<^verbatim>\<open>text.trim()\<close> on a truthy value: a string is trimmed; any other value has no
  \<^verbatim>\<open>trim\<close> method, and the call throws a \<^verbatim>\<open>TypeError\<close>.
\<close>

fun call_trim :: "json \<Rightarrow> js_error + string" where
  "call_trim (JStr s) = Inr (trim s)"
| "call_trim v = Inl (TypeError ''text.trim is not a function'')"

section \<open>The AI provider client (\<^verbatim>\<open>lib/ai.ts\<close>)\<close>

datatype AiProvider = Gemini | OpenAI | Anthropic | GitHub

definition COMMIT_PROMPT :: string where
  "COMMIT_PROMPT = ''You are an expert developer. Based on the following git diff, write a concise, professional commit message following conventional commit standards. Output only the message text, nothing else:''"

text \<open>The template \<^verbatim>\<open>`${COMMIT_PROMPT}\n\n${diff}`\<close>.\<close>

definition prompt_for :: "string \<Rightarrow> string" where
  "prompt_for diff = COMMIT_PROMPT @ [CHR 0x0A, CHR 0x0A] @ diff"

text \<open>The arguments of one \<^verbatim>\<open>axios.post(url, body, {headers, timeout})\<close>.\<close>

record http_request =
  req_url :: string
  req_headers :: "(string \<times> string) list"
  req_body :: json
  req_timeout :: nat

text \<open>
  How one \<^verbatim>\<open>axios.post\<close> ends: with a response of status 2xx and its parsed body
  (\<^verbatim>\<open>response.data\<close>); with an axios error (\<^verbatim>\<open>axios.isAxiosError\<close>), which carries
  \<^verbatim>\<open>error.response?.status\<close> (absent when no response arrived: a network failure or
  the timeout) and \<^verbatim>\<open>error.message\<close>; or with any other thrown value.
\<close>

datatype http_outcome =
    Response json
  | AxiosError "nat option" string
  | OtherError js_error

type_synonym http_post = "http_request \<Rightarrow> http_outcome"

text \<open>The request each provider function posts.\<close>

definition gemini_request :: "string \<Rightarrow> string \<Rightarrow> http_request" where
  "gemini_request diff apiKey = \<lparr>
     req_url = ''https://generativelanguage.googleapis.com/v1beta/models/gemini-2.0-flash:generateContent?key='' @ apiKey,
     req_headers = [],
     req_body = JObj [(''contents'',
       JArr [JObj [(''parts'', JArr [JObj [(''text'', JStr (prompt_for diff))]])]])],
     req_timeout = 60000 \<rparr>"

definition openai_request :: "string \<Rightarrow> string \<Rightarrow> http_request" where
  "openai_request diff apiKey = \<lparr>
     req_url = ''https://api.openai.com/v1/chat/completions'',
     req_headers = [(''Authorization'', ''Bearer '' @ apiKey),
                    (''Content-Type'', ''application/json'')],
     req_body = JObj [(''model'', JStr ''gpt-4o-mini''),
       (''messages'', JArr [JObj [(''role'', JStr ''user''),
                                  (''content'', JStr (prompt_for diff))]]),
       (''max_tokens'', JNum 200)],
     req_timeout = 60000 \<rparr>"

definition anthropic_request :: "string \<Rightarrow> string \<Rightarrow> http_request" where
  "anthropic_request diff apiKey = \<lparr>
     req_url = ''https://api.anthropic.com/v1/messages'',
     req_headers = [(''x-api-key'', apiKey),
                    (''anthropic-version'', ''2023-06-01''),
                    (''Content-Type'', ''application/json'')],
     req_body = JObj [(''model'', JStr ''claude-3-haiku-20240307''),
       (''max_tokens'', JNum 200),
       (''messages'', JArr [JObj [(''role'', JStr ''user''),
                                  (''content'', JStr (prompt_for diff))]])],
     req_timeout = 60000 \<rparr>"

definition github_request :: "string \<Rightarrow> string \<Rightarrow> http_request" where
  "github_request diff token = \<lparr>
     req_url = ''https://models.inference.ai.azure.com/chat/completions'',
     req_headers = [(''Authorization'', ''Bearer '' @ token),
                    (''Content-Type'', ''application/json'')],
     req_body = JObj [(''model'', JStr ''gpt-4o-mini''),
       (''messages'', JArr [JObj [(''role'', JStr ''user''),
                                  (''content'', JStr (prompt_for diff))]]),
       (''max_tokens'', JNum 200)],
     req_timeout = 60000 \<rparr>"

text \<open>
  In each of the four functions the \<^verbatim>\<open>Error\<close> for an empty response and the
  \<^verbatim>\<open>TypeError\<close> of \<^verbatim>\<open>trim\<close> are thrown inside the \<^verbatim>\<open>try\<close>; the \<^verbatim>\<open>catch\<close> finds
  that they are not axios errors and throws them again unchanged.
\<close>

definition generateWithGemini :: "http_post \<Rightarrow> string \<Rightarrow> string \<Rightarrow> js_error + string" where
  "generateWithGemini post diff apiKey =
     (case post (gemini_request diff apiKey) of
        Response data \<Rightarrow>
          (let text = optional_chain data
                 [Prop ''candidates'', At 0, Prop ''content'', Prop ''parts'', At 0, Prop ''text'']
           in if \<not> truthy text then Inl (Error ''Empty response from Gemini'')
              else call_trim text)
      | AxiosError status message \<Rightarrow>
          if status = Some 401 \<or> status = Some 403
          then Inl (Error ''Invalid Gemini API key. Please run setup again.'')
          else if status = Some 429
          then Inl (Error ''Gemini API rate limit exceeded. Please wait a moment and try again.'')
          else Inl (Error (''Gemini API error: '' @
                 (case status of
                    Some n \<Rightarrow> if n \<noteq> 0 then decimal n else message
                  | None \<Rightarrow> message)))
      | OtherError e \<Rightarrow> Inl e)"

definition generateWithOpenAI :: "http_post \<Rightarrow> string \<Rightarrow> string \<Rightarrow> js_error + string" where
  "generateWithOpenAI post diff apiKey =
     (case post (openai_request diff apiKey) of
        Response data \<Rightarrow>
          (let text = optional_chain data
                 [Prop ''choices'', At 0, Prop ''message'', Prop ''content'']
           in if \<not> truthy text then Inl (Error ''Empty response from OpenAI'')
              else call_trim text)
      | AxiosError status message \<Rightarrow>
          if status = Some 401
          then Inl (Error ''Invalid OpenAI API key. Please run setup again.'')
          else Inl (Error (''OpenAI API error: '' @ message))
      | OtherError e \<Rightarrow> Inl e)"

definition generateWithAnthropic :: "http_post \<Rightarrow> string \<Rightarrow> string \<Rightarrow> js_error + string" where
  "generateWithAnthropic post diff apiKey =
     (case post (anthropic_request diff apiKey) of
        Response data \<Rightarrow>
          (let text = optional_chain data [Prop ''content'', At 0, Prop ''text'']
           in if \<not> truthy text then Inl (Error ''Empty response from Anthropic'')
              else call_trim text)
      | AxiosError status message \<Rightarrow>
          if status = Some 401
          then Inl (Error ''Invalid Anthropic API key. Please run setup again.'')
          else Inl (Error (''Anthropic API error: '' @ message))
      | OtherError e \<Rightarrow> Inl e)"

definition generateWithGitHub :: "http_post \<Rightarrow> string \<Rightarrow> string \<Rightarrow> js_error + string" where
  "generateWithGitHub post diff token =
     (case post (github_request diff token) of
        Response data \<Rightarrow>
          (let text = optional_chain data
                 [Prop ''choices'', At 0, Prop ''message'', Prop ''content'']
           in if \<not> truthy text then Inl (Error ''Empty response from GitHub Models'')
              else call_trim text)
      | AxiosError status message \<Rightarrow>
          if status = Some 401
          then Inl (Error ''Invalid GitHub PAT. Please run setup again.'')
          else Inl (Error (''GitHub Models API error: '' @ message))
      | OtherError e \<Rightarrow> Inl e)"

text \<open>
  The \<^verbatim>\<open>switch\<close> on the provider, for the four values of the type
  \<^verbatim>\<open>AiProvider\<close>. Its \<^verbatim>\<open>default\<close> branch, for any other run-time value, is in
  \<open>generateCommitMessage_called\<close> below.
\<close>

fun generateCommitMessage :: "http_post \<Rightarrow> string \<Rightarrow> AiProvider \<Rightarrow> string \<Rightarrow> js_error + string" where
  "generateCommitMessage post diff Gemini apiKey = generateWithGemini post diff apiKey"
| "generateCommitMessage post diff OpenAI apiKey = generateWithOpenAI post diff apiKey"
| "generateCommitMessage post diff Anthropic apiKey = generateWithAnthropic post diff apiKey"
| "generateCommitMessage post diff GitHub apiKey = generateWithGitHub post diff apiKey"

text \<open>The request that \<open>generateCommitMessage\<close> posts for a provider.\<close>

fun ai_request :: "AiProvider \<Rightarrow> string \<Rightarrow> string \<Rightarrow> http_request" where
  "ai_request Gemini diff apiKey = gemini_request diff apiKey"
| "ai_request OpenAI diff apiKey = openai_request diff apiKey"
| "ai_request Anthropic diff apiKey = anthropic_request diff apiKey"
| "ai_request GitHub diff apiKey = github_request diff apiKey"

text \<open>
  The type \<^verbatim>\<open>AiProvider\<close> is a union of four string literals; at run time a
  provider is one of these strings.
\<close>

fun provider_name :: "AiProvider \<Rightarrow> string" where
  "provider_name Gemini = ''gemini''"
| "provider_name OpenAI = ''openai''"
| "provider_name Anthropic = ''anthropic''"
| "provider_name GitHub = ''github''"

definition provider_value :: "AiProvider \<Rightarrow> json" where
  "provider_value p = JStr (provider_name p)"

text \<open>The provider that a run-time value is strictly equal to (\<^verbatim>\<open>===\<close>), if any.\<close>

definition provider_of_value :: "json \<Rightarrow> AiProvider option" where
  "provider_of_value v =
     (if v = JStr ''gemini'' then Some Gemini
      else if v = JStr ''openai'' then Some OpenAI
      else if v = JStr ''anthropic'' then Some Anthropic
      else if v = JStr ''github'' then Some GitHub
      else None)"

text \<open>
  A value inside a template literal (\<^verbatim>\<open>`${v}`\<close>, that is \<^verbatim>\<open>String(v)\<close>): a string is
  itself, an array is its elements joined by commas (with nothing for \<^verbatim>\<open>null\<close> and
  \<^verbatim>\<open>undefined\<close>), an object is \<^verbatim>\<open>[object Object]\<close>; a number is in decimal (as
  JavaScript prints an integer below \<open>10\<^sup>2\<^sup>1\<close>).
\<close>

fun comma_join :: "string list \<Rightarrow> string" where
  "comma_join [] = []"
| "comma_join [s] = s"
| "comma_join (s # t # ts) = s @ '','' @ comma_join (t # ts)"

fun js_to_string :: "json \<Rightarrow> string" where
  "js_to_string JUndefined = ''undefined''"
| "js_to_string JNull = ''null''"
| "js_to_string (JBool b) = (if b then ''true'' else ''false'')"
| "js_to_string (JNum n) = (if n < 0 then ''-'' @ decimal (nat (- n)) else decimal (nat n))"
| "js_to_string (JStr s) = s"
| "js_to_string (JArr xs) =
     comma_join (map (\<lambda>x. if x = JNull \<or> x = JUndefined then [] else js_to_string x) xs)"
| "js_to_string (JObj kvs) = ''[object Object]''"

text \<open>
  \<open>generateCommitMessage\<close> as \<^verbatim>\<open>index.ts\<close> calls it with what the config store
  returned: a provider and a key of any JSON type. The \<^verbatim>\<open>switch\<close> compares the
  provider with \<^verbatim>\<open>===\<close>, and its \<^verbatim>\<open>default\<close> branch throws. The key reaches the
  URL and the \<^verbatim>\<open>Bearer\<close> header through template literals, and the
  \<^verbatim>\<open>x-api-key\<close> header as axios writes a header value that is not an array: as
  \<^verbatim>\<open>String(key)\<close>.
\<close>

definition generateCommitMessage_called :: "http_post \<Rightarrow> string \<Rightarrow> json \<Rightarrow> json \<Rightarrow> js_error + string" where
  "generateCommitMessage_called post diff provider k =
     (case provider_of_value provider of
        Some p \<Rightarrow> generateCommitMessage post diff p (js_to_string k)
      | None \<Rightarrow> Inl (Error (''Unknown AI provider: '' @ js_to_string provider)))"

text \<open>
  The error kinds of the specification (its section 7), read off the messages that
  \<^verbatim>\<open>lib/ai.ts\<close> throws: the four \<^verbatim>\<open>Invalid ...\<close> messages are
  \<open>InvalidCredentials\<close>, the rate-limit message is \<open>RateLimited\<close>, the four
  \<^verbatim>\<open>Empty response from ...\<close> messages are \<open>EmptyResponse\<close>, and a message that
  starts with one of the four \<^verbatim>\<open>... API error: \<close> prefixes is the generic
  \<open>ProviderError\<close>. Anything else the client lets through (a \<^verbatim>\<open>TypeError\<close>, a
  thrown value that is not an axios error) has no kind of its own.
\<close>

datatype AiErrorKind = InvalidCredentials | RateLimited | ProviderError | EmptyResponse | Unclassified

fun classify :: "js_error \<Rightarrow> AiErrorKind" where
  "classify (Error m) =
     (if m = ''Invalid Gemini API key. Please run setup again.'' \<or>
         m = ''Invalid OpenAI API key. Please run setup again.'' \<or>
         m = ''Invalid Anthropic API key. Please run setup again.'' \<or>
         m = ''Invalid GitHub PAT. Please run setup again.''
      then InvalidCredentials
      else if m = ''Gemini API rate limit exceeded. Please wait a moment and try again.''
      then RateLimited
      else if m = ''Empty response from Gemini'' \<or>
         m = ''Empty response from OpenAI'' \<or>
         m = ''Empty response from Anthropic'' \<or>
         m = ''Empty response from GitHub Models''
      then EmptyResponse
      else if prefix ''Gemini API error: '' m \<or>
         prefix ''OpenAI API error: '' m \<or>
         prefix ''Anthropic API error: '' m \<or>
         prefix ''GitHub Models API error: '' m
      then ProviderError
      else Unclassified)"
| "classify e = Unclassified"

text \<open>A call fails with an error of the given kind (and so returns no string).\<close>

fun fails_as :: "js_error + string \<Rightarrow> AiErrorKind \<Rightarrow> bool" where
  "fails_as (Inl e) k = (classify e = k)"
| "fails_as (Inr s) k = False"

text \<open>The response text paths as the specification documents them (its section 6).\<close>

fun documented_path :: "AiProvider \<Rightarrow> access list" where
  "documented_path Gemini =
     [Prop ''candidates'', At 0, Prop ''content'', Prop ''parts'', At 0, Prop ''text'']"
| "documented_path OpenAI = [Prop ''choices'', At 0, Prop ''message'', Prop ''content'']"
| "documented_path Anthropic = [Prop ''content'', At 0, Prop ''text'']"
| "documented_path GitHub = [Prop ''choices'', At 0, Prop ''message'', Prop ''content'']"

section \<open>The config store (\<^verbatim>\<open>lib/config.ts\<close>)\<close>

text \<open>
  \<^verbatim>\<open>getConfig\<close> returns what \<^verbatim>\<open>JSON.parse\<close> gives, unchecked: the interface
  \<^verbatim>\<open>Config\<close> is only its declared type. So a configuration is a \<^typ>\<open>json\<close> value, and
  the fields are read and written as properties.

  A property read \<^verbatim>\<open>config.name\<close>: it throws on \<^verbatim>\<open>null\<close> and \<^verbatim>\<open>undefined\<close>, and on
  any other value it is the read of \<open>optional_access\<close>.
\<close>

definition quoted :: "string \<Rightarrow> string" where
  "quoted s = [CHR 0x27] @ s @ [CHR 0x27]"

fun get_property :: "json \<Rightarrow> string \<Rightarrow> js_error + json" where
  "get_property JNull name =
     Inl (TypeError (''Cannot read properties of null (reading '' @ quoted name @ '')''))"
| "get_property JUndefined name =
     Inl (TypeError (''Cannot read properties of undefined (reading '' @ quoted name @ '')''))"
| "get_property v name = Inr (optional_access v (Prop name))"

text \<open>The own properties of an object after \<^verbatim>\<open>object.name = v\<close>.\<close>

fun set_own :: "(string \<times> json) list \<Rightarrow> string \<Rightarrow> json \<Rightarrow> (string \<times> json) list" where
  "set_own [] name v = [(name, v)]"
| "set_own ((k, x) # kvs) name v =
     (if k = name then (k, v) # kvs else (k, x) # set_own kvs name v)"

text \<open>
  An assignment \<^verbatim>\<open>config.name = v\<close> (in a module, so in strict mode), for a name
  that is neither an index nor \<^verbatim>\<open>length\<close>. The result is the value as
  \<^verbatim>\<open>JSON.stringify\<close> will write it: an object gets the property; an array takes it
  too, but \<^verbatim>\<open>JSON.stringify\<close> writes the elements of an array and nothing else; on
  \<^verbatim>\<open>null\<close>, a number, a string or a boolean the assignment throws.
\<close>

fun js_typeof :: "json \<Rightarrow> string" where
  "js_typeof JUndefined = ''undefined''"
| "js_typeof JNull = ''object''"
| "js_typeof (JBool b) = ''boolean''"
| "js_typeof (JNum n) = ''number''"
| "js_typeof (JStr s) = ''string''"
| "js_typeof (JArr xs) = ''object''"
| "js_typeof (JObj kvs) = ''object''"

fun set_property :: "json \<Rightarrow> string \<Rightarrow> json \<Rightarrow> js_error + json" where
  "set_property (JObj kvs) name v = Inr (JObj (set_own kvs name v))"
| "set_property (JArr xs) name v = Inr (JArr xs)"
| "set_property JNull name v =
     Inl (TypeError (''Cannot set properties of null (setting '' @ quoted name @ '')''))"
| "set_property JUndefined name v =
     Inl (TypeError (''Cannot set properties of undefined (setting '' @ quoted name @ '')''))"
| "set_property primitive name v =
     Inl (TypeError (''Cannot create property '' @ quoted name @ '' on '' @
            js_typeof primitive @ '' '' @ quoted (js_to_string primitive)))"

text \<open>
  What the file \<^verbatim>\<open>~/.my-cli/config.json\<close> holds: it is not there, or its text is not
  JSON, or its text is the JSON text of a value (what \<^verbatim>\<open>JSON.stringify\<close> writes and
  \<^verbatim>\<open>JSON.parse\<close> reads back). That value can be of any JSON type: an object, but
  also an array, \<^verbatim>\<open>null\<close>, a number, a string or a boolean.
\<close>

datatype file_content = NoFile | NotJson | Holds json

text \<open>
  The file, with what the file system refuses: reading it, writing it (or making its
  directory), removing it.
\<close>

record config_file =
  content :: file_content
  read_fails :: bool
  write_fails :: bool
  unlink_fails :: bool

definition existsSync :: "config_file \<Rightarrow> bool" where
  "existsSync f = (content f \<noteq> NoFile)"

text \<open>\<^verbatim>\<open>JSON.parse(fs.readFileSync(CONFIG_FILE, 'utf-8'))\<close>\<close>

definition read_and_parse :: "config_file \<Rightarrow> js_error + json" where
  "read_and_parse f =
     (if read_fails f then Inl (Error ''EACCES: permission denied'')
      else case content f of
             NoFile \<Rightarrow> Inl (Error ''ENOENT: no such file or directory'')
           | NotJson \<Rightarrow> Inl (SyntaxError ''Unexpected token'')
           | Holds v \<Rightarrow> Inr v)"

text \<open>Every error of the read and of the parse is caught; \<^verbatim>\<open>{}\<close> is returned then.\<close>

definition getConfig :: "config_file \<Rightarrow> json" where
  "getConfig f =
     (if existsSync f
      then (case read_and_parse f of Inr v \<Rightarrow> v | Inl e \<Rightarrow> JObj [])
      else JObj [])"

text \<open>
  \<^verbatim>\<open>saveConfig\<close> makes the directory when it is missing and overwrites the file; it
  catches nothing. The result is the error thrown, or the file afterwards.
\<close>

definition saveConfig :: "json \<Rightarrow> config_file \<Rightarrow> js_error + config_file" where
  "saveConfig config f =
     (if write_fails f then Inl (Error ''EACCES: permission denied'')
      else Inr (f\<lparr> content := Holds config \<rparr>))"

definition getApiKey :: "config_file \<Rightarrow> js_error + json" where
  "getApiKey f = get_property (getConfig f) ''apiKey''"

definition getAiProvider :: "config_file \<Rightarrow> js_error + json" where
  "getAiProvider f = get_property (getConfig f) ''aiProvider''"

text \<open>The three assignments, in their order, and then \<^verbatim>\<open>saveConfig(config)\<close>.\<close>

definition setApiKey :: "AiProvider \<Rightarrow> string \<Rightarrow> config_file \<Rightarrow> js_error + config_file" where
  "setApiKey provider k f =
     (case set_property (getConfig f) ''aiProvider'' (provider_value provider) of
        Inl e \<Rightarrow> Inl e
      | Inr c1 \<Rightarrow>
     (case set_property c1 ''apiKey'' (JStr k) of
        Inl e \<Rightarrow> Inl e
      | Inr c2 \<Rightarrow>
     (case set_property c2 ''setupComplete'' (JBool True) of
        Inl e \<Rightarrow> Inl e
      | Inr c3 \<Rightarrow> saveConfig c3 f)))"

text \<open>
  \<^verbatim>\<open>config.setupComplete === true && !!config.apiKey && !!config.aiProvider\<close>, from
  left to right, each \<^verbatim>\<open>&&\<close> ending at a falsy operand.
\<close>

definition isSetupComplete :: "config_file \<Rightarrow> js_error + bool" where
  "isSetupComplete f =
     (let config = getConfig f
      in case get_property config ''setupComplete'' of
           Inl e \<Rightarrow> Inl e
         | Inr done \<Rightarrow>
             if done \<noteq> JBool True then Inr False
             else (case get_property config ''apiKey'' of
                     Inl e \<Rightarrow> Inl e
                   | Inr k \<Rightarrow>
                       if \<not> truthy k then Inr False
                       else (case get_property config ''aiProvider'' of
                               Inl e \<Rightarrow> Inl e
                             | Inr p \<Rightarrow> Inr (truthy p))))"

definition unlinkSync :: "config_file \<Rightarrow> js_error + config_file" where
  "unlinkSync f =
     (if content f = NoFile then Inl (Error ''ENOENT: no such file or directory'')
      else if unlink_fails f then Inl (Error ''EPERM: operation not permitted'')
      else Inr (f\<lparr> content := NoFile \<rparr>))"

text \<open>
  \<^verbatim>\<open>clearConfig\<close>: what it returns, and the file afterwards. An error of the removal
  is caught: the result is \<^verbatim>\<open>false\<close>, and the file is still there.
\<close>

definition clearConfig :: "config_file \<Rightarrow> bool \<times> config_file" where
  "clearConfig f =
     (if existsSync f
      then (case unlinkSync f of Inr f' \<Rightarrow> (True, f') | Inl e \<Rightarrow> (False, f))
      else (False, f))"

section \<open>Effects: subprocesses, prompts and the process exit\<close>

text \<open>
  A subprocess is a binary with its argument list (\<^verbatim>\<open>execa(bin, args)\<close>); it ends
  with exit code 0 and its standard output (execa strips one final newline), or it
  fails, and \<^verbatim>\<open>execa\<close> throws.
\<close>

type_synonym command = "string \<times> string list"

datatype exec_result = Stdout string | Failed string

text \<open>
  What one run of a command changes or consumes: the config file, the subprocesses
  spawned so far (in order), the requests posted so far, and the answers the user
  will give to the prompts still to come (to \<^verbatim>\<open>confirm\<close>, to the provider menu
  and to the password prompt).
\<close>

record world =
  config_file :: config_file
  spawned :: "command list"
  posted :: "http_request list"
  confirm_answers :: "bool list"
  provider_answers :: "AiProvider list"
  key_answers :: "string list"

text \<open>
  What the run cannot change: how each subprocess ends (given those spawned before
  it), how each POST ends (given those posted before it), and the name of the
  working directory. Two functions that \<^verbatim>\<open>index.ts\<close> and \<^verbatim>\<open>lib/prompt.ts\<close> import
  are not in the source, and are parameters here: \<^verbatim>\<open>testApiKey\<close> of
  \<^verbatim>\<open>lib/ai.ts\<close> (whether it finds a key valid) and \<^verbatim>\<open>installGhCli\<close> of
  \<^verbatim>\<open>lib/git.ts\<close> (the error it throws, if any; its own subprocesses are not recorded).
\<close>

record env =
  execa_result :: "command list \<Rightarrow> command \<Rightarrow> exec_result"
  axios_post :: "http_request list \<Rightarrow> http_post"
  cwd_basename :: string
  testApiKey_valid :: "AiProvider \<Rightarrow> string \<Rightarrow> bool"
  installGhCli_error :: "js_error option"

text \<open>
  An awaited call returns a value, throws, ends the process (\<^verbatim>\<open>process.exit\<close>), or
  never returns because a prompt is still waiting for an answer.
\<close>

datatype 'a step = Return 'a | Throw js_error | Exit nat | Waiting

type_synonym 'a io = "world \<Rightarrow> 'a step \<times> world"

definition ret :: "'a \<Rightarrow> 'a io" where
  "ret x = (\<lambda>w. (Return x, w))"

definition throw :: "js_error \<Rightarrow> 'a io" where
  "throw e = (\<lambda>w. (Throw e, w))"

definition process_exit :: "nat \<Rightarrow> 'a io" where
  "process_exit n = (\<lambda>w. (Exit n, w))"

text \<open>\<^verbatim>\<open>const x = await m; ...f(x)\<close>\<close>

definition bnd :: "'a io \<Rightarrow> ('a \<Rightarrow> 'b io) \<Rightarrow> 'b io" where
  "bnd m f = (\<lambda>w. case m w of
       (Return x, w') \<Rightarrow> f x w'
     | (Throw e, w') \<Rightarrow> (Throw e, w')
     | (Exit n, w') \<Rightarrow> (Exit n, w')
     | (Waiting, w') \<Rightarrow> (Waiting, w'))"

text \<open>\<^verbatim>\<open>try { m } catch (e) { h(e) }\<close>\<close>

definition try_catch :: "'a io \<Rightarrow> (js_error \<Rightarrow> 'a io) \<Rightarrow> 'a io" where
  "try_catch m h = (\<lambda>w. case m w of
       (Throw e, w') \<Rightarrow> h e w'
     | (Return x, w') \<Rightarrow> (Return x, w')
     | (Exit n, w') \<Rightarrow> (Exit n, w')
     | (Waiting, w') \<Rightarrow> (Waiting, w'))"

definition execa :: "env \<Rightarrow> string \<Rightarrow> string list \<Rightarrow> string io" where
  "execa E bin args = (\<lambda>w.
     let w' = w\<lparr> spawned := spawned w @ [(bin, args)] \<rparr>
     in case execa_result E (spawned w) (bin, args) of
          Stdout out \<Rightarrow> (Return out, w')
        | Failed msg \<Rightarrow> (Throw (Error msg), w'))"

text \<open>The config store, on the file of the world; what it throws is thrown.\<close>

definition read_config :: "(config_file \<Rightarrow> js_error + 'a) \<Rightarrow> 'a io" where
  "read_config g = (\<lambda>w. case g (config_file w) of
       Inr x \<Rightarrow> (Return x, w)
     | Inl e \<Rightarrow> (Throw e, w))"

definition run_setApiKey :: "AiProvider \<Rightarrow> string \<Rightarrow> unit io" where
  "run_setApiKey provider k = (\<lambda>w. case setApiKey provider k (config_file w) of
       Inr f \<Rightarrow> (Return (), w\<lparr> config_file := f \<rparr>)
     | Inl e \<Rightarrow> (Throw e, w))"

text \<open>
  \<open>generateCommitMessage_called\<close> as one awaited call: for a known provider it posts
  one request; its error is thrown.
\<close>

definition run_generateCommitMessage :: "env \<Rightarrow> string \<Rightarrow> json \<Rightarrow> json \<Rightarrow> string io" where
  "run_generateCommitMessage E diff provider k = (\<lambda>w.
     let w' = (case provider_of_value provider of
                 Some p \<Rightarrow> w\<lparr> posted := posted w @ [ai_request p diff (js_to_string k)] \<rparr>
               | None \<Rightarrow> w)
     in case generateCommitMessage_called (axios_post E (posted w)) diff provider k of
          Inr message \<Rightarrow> (Return message, w')
        | Inl e \<Rightarrow> (Throw e, w'))"

definition installGhCli :: "env \<Rightarrow> unit io" where
  "installGhCli E = (case installGhCli_error E of None \<Rightarrow> ret () | Some e \<Rightarrow> throw e)"

section \<open>The prompts (\<^verbatim>\<open>lib/prompt.ts\<close>)\<close>

definition selectAiProvider :: "AiProvider io" where
  "selectAiProvider = (\<lambda>w. case provider_answers w of
       [] \<Rightarrow> (Waiting, w)
     | a # rest \<Rightarrow> (Return a, w\<lparr> provider_answers := rest \<rparr>))"

definition confirm :: "string \<Rightarrow> bool io" where
  "confirm message = (\<lambda>w. case confirm_answers w of
       [] \<Rightarrow> (Waiting, w)
     | a # rest \<Rightarrow> (Return a, w\<lparr> confirm_answers := rest \<rparr>))"

text \<open>
  The loop of \<^verbatim>\<open>inputApiKey\<close> over the entries the user types: the password
  prompt itself asks again after an entry that is empty once trimmed; a trimmed entry
  that \<^verbatim>\<open>testApiKey\<close> finds valid is returned; after any other the loop asks again.
  When the entries run out the prompt is still waiting.
\<close>

fun inputApiKey_loop :: "(string \<Rightarrow> bool) \<Rightarrow> string list \<Rightarrow> (string \<times> string list) option" where
  "inputApiKey_loop valid [] = None"
| "inputApiKey_loop valid (entry # rest) =
     (if length (trim entry) = 0 then inputApiKey_loop valid rest
      else if valid (trim entry) then Some (trim entry, rest)
      else inputApiKey_loop valid rest)"

definition inputApiKey :: "env \<Rightarrow> AiProvider \<Rightarrow> string io" where
  "inputApiKey E provider = (\<lambda>w.
     case inputApiKey_loop (testApiKey_valid E provider) (key_answers w) of
       None \<Rightarrow> (Waiting, w\<lparr> key_answers := [] \<rparr>)
     | Some (k, rest) \<Rightarrow> (Return k, w\<lparr> key_answers := rest \<rparr>))"

section \<open>The shell adapter (\<^verbatim>\<open>lib/git.ts\<close>)\<close>

definition isGhInstalled :: "env \<Rightarrow> bool io" where
  "isGhInstalled E =
     try_catch (bnd (execa E ''gh'' [''--version'']) (\<lambda>out. ret True)) (\<lambda>e. ret False)"

definition isGhAuthenticated :: "env \<Rightarrow> bool io" where
  "isGhAuthenticated E =
     try_catch (bnd (execa E ''gh'' [''auth'', ''status'']) (\<lambda>out. ret True)) (\<lambda>e. ret False)"

definition loginGh :: "env \<Rightarrow> unit io" where
  "loginGh E = bnd (execa E ''gh'' [''auth'', ''login'']) (\<lambda>out. ret ())"

definition isGitRepo :: "env \<Rightarrow> bool io" where
  "isGitRepo E =
     try_catch (bnd (execa E ''git'' [''rev-parse'', ''--is-inside-work-tree'']) (\<lambda>out. ret True))
       (\<lambda>e. ret False)"

definition initGitRepo :: "env \<Rightarrow> unit io" where
  "initGitRepo E = bnd (execa E ''git'' [''init'']) (\<lambda>out. ret ())"

definition hasRemote :: "env \<Rightarrow> bool io" where
  "hasRemote E =
     try_catch (bnd (execa E ''git'' [''remote'']) (\<lambda>stdout. ret (js_includes stdout ''origin'')))
       (\<lambda>e. ret False)"

definition createGitHubRepo :: "env \<Rightarrow> unit io" where
  "createGitHubRepo E =
     bnd (execa E ''gh'' [''repo'', ''create'', cwd_basename E, ''--public'', ''--source=.'',
            ''--remote=origin''])
       (\<lambda>out. ret ())"

definition stageAll :: "env \<Rightarrow> unit io" where
  "stageAll E = bnd (execa E ''git'' [''add'', ''.'']) (\<lambda>out. ret ())"

definition getStagedDiff :: "env \<Rightarrow> string io" where
  "getStagedDiff E = bnd (execa E ''git'' [''diff'', ''--cached'']) (\<lambda>stdout. ret stdout)"

definition commit :: "env \<Rightarrow> string \<Rightarrow> unit io" where
  "commit E message = bnd (execa E ''git'' [''commit'', ''-m'', message]) (\<lambda>out. ret ())"

text \<open>\<^verbatim>\<open>stdout.trim() || 'main'\<close>: the empty string is falsy.\<close>

definition getCurrentBranch :: "env \<Rightarrow> string io" where
  "getCurrentBranch E =
     bnd (execa E ''git'' [''branch'', ''--show-current''])
       (\<lambda>stdout. ret (if trim stdout \<noteq> [] then trim stdout else ''main''))"

definition push :: "env \<Rightarrow> unit io" where
  "push E =
     bnd (getCurrentBranch E)
       (\<lambda>branch. bnd (execa E ''git'' [''push'', ''-u'', ''origin'', branch]) (\<lambda>out. ret ()))"

definition hasStagedChanges :: "env \<Rightarrow> bool io" where
  "hasStagedChanges E =
     bnd (execa E ''git'' [''diff'', ''--cached'', ''--name-only''])
       (\<lambda>stdout. ret (length (trim stdout) > 0))"

definition hasChanges :: "env \<Rightarrow> bool io" where
  "hasChanges E =
     bnd (execa E ''git'' [''status'', ''--porcelain''])
       (\<lambda>stdout. ret (length (trim stdout) > 0))"

section \<open>The \<^verbatim>\<open>push\<close> command (\<^verbatim>\<open>index.ts\<close>)\<close>

text \<open>\<^verbatim>\<open>options.message\<close> is truthy: \<^verbatim>\<open>-m\<close> was given, with a non-empty text.\<close>

definition has_message :: "string option \<Rightarrow> bool" where
  "has_message message = (case message of None \<Rightarrow> False | Some m \<Rightarrow> m \<noteq> [])"

text \<open>
  The three lines \<^verbatim>\<open>selectAiProvider(); inputApiKey(provider); setApiKey(provider, apiKey)\<close>,
  which the action has three times.
\<close>

definition configure_ai :: "env \<Rightarrow> (AiProvider \<times> string) io" where
  "configure_ai E =
     bnd selectAiProvider (\<lambda>provider.
     bnd (inputApiKey E provider) (\<lambda>k.
     bnd (run_setApiKey provider k) (\<lambda>u.
     ret (provider, k))))"

text \<open>The setup gate at the top of the action.\<close>

definition push_setup_gate :: "string option \<Rightarrow> unit io" where
  "push_setup_gate message =
     bnd (read_config isSetupComplete) (\<lambda>setup.
     if \<not> setup \<and> \<not> has_message message then process_exit 1 else ret ())"

text \<open>Step 1: GitHub CLI.\<close>

definition push_check_gh :: "env \<Rightarrow> unit io" where
  "push_check_gh E =
     bnd (isGhInstalled E) (\<lambda>installed.
     if \<not> installed
     then bnd (confirm ''Would you like to install GitHub CLI now?'') (\<lambda>shouldInstall.
          if shouldInstall then bnd (installGhCli E) (\<lambda>u. process_exit 0)
          else process_exit 1)
     else ret ())"

text \<open>Step 2: GitHub authentication; the result is \<^verbatim>\<open>needsApiReconfigure\<close>.\<close>

definition push_check_auth :: "env \<Rightarrow> bool io" where
  "push_check_auth E =
     bnd (isGhAuthenticated E) (\<lambda>authenticated.
     if \<not> authenticated then bnd (loginGh E) (\<lambda>u. ret True) else ret False)"

text \<open>Step 3: AI provider configuration, only without \<^verbatim>\<open>-m\<close>.\<close>

definition push_check_ai :: "env \<Rightarrow> string option \<Rightarrow> bool \<Rightarrow> unit io" where
  "push_check_ai E message needsApiReconfigure =
     (if \<not> has_message message
      then bnd (read_config isSetupComplete) (\<lambda>setup.
           if \<not> setup \<or> needsApiReconfigure
           then bnd (configure_ai E) (\<lambda>c. ret ())
           else ret ())
      else ret ())"

text \<open>Step 4: git repository.\<close>

definition push_check_repo :: "env \<Rightarrow> unit io" where
  "push_check_repo E =
     bnd (isGitRepo E) (\<lambda>repo. if \<not> repo then initGitRepo E else ret ())"

text \<open>The remote check.\<close>

definition push_check_remote :: "env \<Rightarrow> unit io" where
  "push_check_remote E =
     bnd (hasRemote E) (\<lambda>remote. if \<not> remote then createGitHubRepo E else ret ())"

text \<open>The check for changes.\<close>

definition push_check_changes :: "env \<Rightarrow> unit io" where
  "push_check_changes E =
     bnd (hasChanges E) (\<lambda>changes. if \<not> changes then process_exit 0 else ret ())"

text \<open>The setup gate and steps 1 to 3, in their order.\<close>

definition push_config_checks :: "env \<Rightarrow> string option \<Rightarrow> unit io" where
  "push_config_checks E message =
     bnd (push_setup_gate message) (\<lambda>u.
     bnd (push_check_gh E) (\<lambda>u.
     bnd (push_check_auth E) (\<lambda>needsApiReconfigure.
     push_check_ai E message needsApiReconfigure)))"

text \<open>The checks of the repository, the remote and the changes, in their order.\<close>

definition push_repo_checks :: "env \<Rightarrow> unit io" where
  "push_repo_checks E =
     bnd (push_check_repo E) (\<lambda>u.
     bnd (push_check_remote E) (\<lambda>u.
     push_check_changes E))"

definition push_checks :: "env \<Rightarrow> string option \<Rightarrow> unit io" where
  "push_checks E message =
     bnd (push_config_checks E message) (\<lambda>u. push_repo_checks E)"

text \<open>Everything up to and including \<^verbatim>\<open>await stageAll()\<close>.\<close>

definition push_prepare :: "env \<Rightarrow> string option \<Rightarrow> unit io" where
  "push_prepare E message = bnd (push_checks E message) (\<lambda>u. stageAll E)"

text \<open>
  Without \<^verbatim>\<open>-m\<close>: the provider and key read from the config, or, when one of them
  is falsy (\<^verbatim>\<open>!provider || !apiKey\<close>), asked for and saved.
\<close>

definition push_stored_ai :: "env \<Rightarrow> (json \<times> json) io" where
  "push_stored_ai E =
     bnd (read_config getAiProvider) (\<lambda>provider.
     bnd (read_config getApiKey) (\<lambda>stored.
     if \<not> truthy provider \<or> \<not> truthy stored
     then bnd (configure_ai E) (\<lambda>(provider', k'). ret (provider_value provider', JStr k'))
     else ret (provider, stored)))"

text \<open>
  The call of \<open>generateCommitMessage\<close> and its \<^verbatim>\<open>catch\<close>: one offer to
  reconfigure, and then one more call, whose error is not caught here.
\<close>

definition push_generate :: "env \<Rightarrow> string \<Rightarrow> json \<Rightarrow> json \<Rightarrow> string io" where
  "push_generate E diff provider k =
     try_catch (run_generateCommitMessage E diff provider k) (\<lambda>aiError.
       bnd (confirm ''Reconfigure AI provider?'') (\<lambda>shouldReconfigure.
       if shouldReconfigure
       then bnd (configure_ai E) (\<lambda>(provider', k').
            run_generateCommitMessage E diff (provider_value provider') (JStr k'))
       else process_exit 1))"

definition push_ai_message :: "env \<Rightarrow> string io" where
  "push_ai_message E =
     bnd (push_stored_ai E) (\<lambda>(provider, k).
     bnd (getStagedDiff E) (\<lambda>diff.
     if diff = [] then process_exit 0 else push_generate E diff provider k))"

text \<open>Step 5: the commit message.\<close>

definition push_commit_message :: "env \<Rightarrow> string option \<Rightarrow> string io" where
  "push_commit_message E message =
     (case message of
        Some m \<Rightarrow> if m \<noteq> [] then ret m else push_ai_message E
      | None \<Rightarrow> push_ai_message E)"

text \<open>
  The action of \<^verbatim>\<open>push\<close>: all of it is inside one \<^verbatim>\<open>try\<close>, whose \<^verbatim>\<open>catch\<close>
  prints the error and exits with code 1.
\<close>

definition push_action :: "env \<Rightarrow> string option \<Rightarrow> unit io" where
  "push_action E message =
     try_catch
       (bnd (push_prepare E message) (\<lambda>u.
        bnd (push_commit_message E message) (\<lambda>commitMessage.
        bnd (commit E commitMessage) (\<lambda>u.
        push E))))
       (\<lambda>error. process_exit 1)"


text \<open>
  The exit code of the process: 0 when the action returns, the argument of
  \<^verbatim>\<open>process.exit\<close>, 1 for an uncaught error; none while a prompt is waiting.
\<close>

fun exit_code :: "'a step \<Rightarrow> nat option" where
  "exit_code (Return x) = Some 0"
| "exit_code (Exit n) = Some n"
| "exit_code (Throw e) = Some 1"
| "exit_code Waiting = None"

section \<open>The repository name of the \<^verbatim>\<open>delete\<close> command (\<^verbatim>\<open>index.ts\<close>)\<close>

text \<open>
  The dot of a regular expression matches every code unit but a line terminator
  (LF and CR, among the code units up to 0xFF).
\<close>

definition is_line_terminator :: "char \<Rightarrow> bool" where
  "is_line_terminator c = (c = CHR 0x0A \<or> c = CHR 0x0D)"

text \<open>
  The tail \<^verbatim>\<open>(.+?)(?:\.git)?$\<close> of the regular expression, by backtracking: the
  lazy group takes one more character (the dot must match it); then the greedy
  \<^verbatim>\<open>(?:\.git)?\<close> and \<^verbatim>\<open>$\<close> match when what is left is \<^verbatim>\<open>.git\<close> (the group
  taken) or nothing (the group skipped); otherwise the lazy group grows. \<open>taken\<close> is
  what the group holds so far.
\<close>

fun lazy_group :: "string \<Rightarrow> string \<Rightarrow> string option" where
  "lazy_group taken [] = None"
| "lazy_group taken (c # rest) =
     (if is_line_terminator c then None
      else if rest = ''.git'' \<or> rest = [] then Some (taken @ [c])
      else lazy_group (taken @ [c]) rest)"

text \<open>What is left of a string after a literal prefix, when it starts with it.\<close>

fun after_literal :: "string \<Rightarrow> string \<Rightarrow> string option" where
  "after_literal [] s = Some s"
| "after_literal (p # ps) [] = None"
| "after_literal (p # ps) (c # cs) = (if p = c then after_literal ps cs else None)"

text \<open>
  \<^verbatim>\<open>/github\.com[:/](.+?)(?:\.git)?$/\<close> matched at the start of \<open>s\<close>; the result is
  group 1.
\<close>

definition match_at_start :: "string \<Rightarrow> string option" where
  "match_at_start s =
     (case after_literal ''github.com'' s of
        None \<Rightarrow> None
      | Some [] \<Rightarrow> None
      | Some (c # rest) \<Rightarrow>
          if c = CHR '':'' \<or> c = CHR ''/'' then lazy_group [] rest else None)"

text \<open>
  \<^verbatim>\<open>remoteUrl.match(/github\.com[:/](.+?)(?:\.git)?$/)\<close>: the match at the leftmost
  position that has one; \<open>None\<close> is \<^verbatim>\<open>null\<close>, and \<open>Some g\<close> a match whose group 1
  is \<open>g\<close>.
\<close>

fun repoMatch :: "string \<Rightarrow> string option" where
  "repoMatch [] = match_at_start []"
| "repoMatch (c # cs) =
     (case match_at_start (c # cs) of Some g \<Rightarrow> Some g | None \<Rightarrow> repoMatch cs)"

text \<open>
  \<^verbatim>\<open>repoMatch[1].replace('.git', '')\<close>; \<open>None\<close> where the command prints that it
  could not determine the repository name and exits with code 1.
\<close>

definition repoName :: "string \<Rightarrow> string option" where
  "repoName remoteUrl = map_option (replace_first ''.git'' []) (repoMatch remoteUrl)"

section \<open>Statements about runs\<close>

text \<open>
  Whatever the world before, the subprocesses a call spawns are appended to those
  spawned so far, and each of them satisfies \<open>P\<close>.
\<close>

definition spawns_only :: "(command \<Rightarrow> bool) \<Rightarrow> 'a io \<Rightarrow> bool" where
  "spawns_only P m =
     (\<forall>w. \<exists>new. spawned (snd (m w)) = spawned w @ new \<and> list_all P new)"


definition is_git_commit :: "command \<Rightarrow> bool" where
  "is_git_commit c = (fst c = ''git'' \<and> take 1 (snd c) = [''commit''])"

definition is_repo_create :: "command \<Rightarrow> bool" where
  "is_repo_create c = (fst c = ''gh'' \<and> take 2 (snd c) = [''repo'', ''create''])"

text \<open>
  An environment for example runs: \<^verbatim>\<open>git remote\<close> prints \<open>remotes\<close>, the work
  tree has one modified file, every other subprocess succeeds with no output, and
  every POST ends as \<open>outcome\<close>.
\<close>

definition example_env :: "string \<Rightarrow> http_outcome \<Rightarrow> env" where
  "example_env remotes outcome = \<lparr>
     execa_result = (\<lambda>before c.
       if c = (''git'', [''remote'']) then Stdout remotes
       else if c = (''git'', [''status'', ''--porcelain'']) then Stdout ''M file.ts''
       else if c = (''git'', [''diff'', ''--cached'']) then Stdout ''diff --git a/file.ts b/file.ts''
       else Stdout []),
     axios_post = (\<lambda>before r. outcome),
     cwd_basename = ''my-project'',
     testApiKey_valid = (\<lambda>provider k. True),
     installGhCli_error = None \<rparr>"

text \<open>
  A world for example runs: a config file that the file system lets the tool read,
  write and remove, and nothing spawned or posted yet.
\<close>

definition example_world :: "file_content \<Rightarrow> bool list \<Rightarrow> AiProvider list \<Rightarrow> string list \<Rightarrow> world" where
  "example_world c confirms providers keys = \<lparr>
     config_file = \<lparr> content = c, read_fails = False, write_fails = False,
                     unlink_fails = False \<rparr>,
     spawned = [], posted = [],
     confirm_answers = confirms, provider_answers = providers, key_answers = keys \<rparr>"

section \<open>Properties of the JavaScript string functions\<close>

lemma trim_decompose:
  "\<exists>pre suf. s = pre @ trim s @ suf \<and>
     list_all is_js_whitespace pre \<and> list_all is_js_whitespace suf"
proof -
  let ?a = "takeWhile is_js_whitespace s"
  let ?r = "dropWhile is_js_whitespace s"
  let ?b = "takeWhile is_js_whitespace (rev ?r)"
  have 1: "s = ?a @ ?r" by simp
  have "rev ?r = ?b @ dropWhile is_js_whitespace (rev ?r)" by simp
  then have "?r = rev (dropWhile is_js_whitespace (rev ?r)) @ rev ?b"
    by (metis rev_append rev_rev_ident)
  then have 3: "?r = trim s @ rev ?b" by (simp add: trim_def)
  have "list_all is_js_whitespace ?a"
    by (simp add: list_all_iff) (metis set_takeWhileD)
  moreover have "list_all is_js_whitespace (rev ?b)"
    by (simp add: list_all_iff) (metis set_takeWhileD)
  ultimately show ?thesis using 1 3 by metis
qed

lemma trim_ends:
  assumes "trim s \<noteq> []"
  shows "\<not> is_js_whitespace (hd (trim s)) \<and> \<not> is_js_whitespace (last (trim s))"
proof -
  let ?r = "dropWhile is_js_whitespace s"
  let ?d = "dropWhile is_js_whitespace (rev ?r)"
  have t: "trim s = rev ?d" by (simp add: trim_def)
  with assms have d: "?d \<noteq> []" by simp
  then have "\<not> is_js_whitespace (hd ?d)" by (rule hd_dropWhile)
  then have last: "\<not> is_js_whitespace (last (trim s))" using d t by (simp add: last_rev)
  have "rev ?r = takeWhile is_js_whitespace (rev ?r) @ ?d" by simp
  then have "?r = rev ?d @ rev (takeWhile is_js_whitespace (rev ?r))"
    by (metis rev_append rev_rev_ident)
  then have r: "?r = trim s @ rev (takeWhile is_js_whitespace (rev ?r))" using t by simp
  then have "?r \<noteq> []" using assms by (metis append_is_Nil_conv)
  then have "\<not> is_js_whitespace (hd ?r)" by (rule hd_dropWhile)
  moreover have "hd ?r = hd (trim s)" using r assms by (metis hd_append2)
  ultimately show ?thesis using last by simp
qed

lemma js_includes_iff: "js_includes s pat \<longleftrightarrow> (\<exists>pre post. s = pre @ pat @ post)"
proof (induction s)
  case Nil
  then show ?case by simp
next
  case (Cons c cs)
  show ?case
  proof
    assume "js_includes (c # cs) pat"
    then consider "prefix pat (c # cs)" | "js_includes cs pat" by auto
    then show "\<exists>pre post. c # cs = pre @ pat @ post"
    proof cases
      case 1
      then obtain post where "c # cs = pat @ post" by (auto simp: prefix_def)
      then have "c # cs = [] @ pat @ post" by simp
      then show ?thesis by blast
    next
      case 2
      then obtain pre post where "cs = pre @ pat @ post" using Cons.IH by blast
      then have "c # cs = (c # pre) @ pat @ post" by simp
      then show ?thesis by blast
    qed
  next
    assume "\<exists>pre post. c # cs = pre @ pat @ post"
    then obtain pre post where e: "c # cs = pre @ pat @ post" by blast
    show "js_includes (c # cs) pat"
    proof (cases pre)
      case Nil
      then have "prefix pat (c # cs)" using e by (simp add: prefix_def)
      then show ?thesis by simp
    next
      case (Cons a pre')
      then have "cs = pre' @ pat @ post" using e by simp
      then have "js_includes cs pat" using Cons.IH by blast
      then show ?thesis by simp
    qed
  qed
qed

lemma replace_first_absent: "\<not> js_includes s pat \<Longrightarrow> replace_first pat rep s = s"
  by (induction s) auto

text \<open>
  When the pattern occurs, \<open>replace_first\<close> replaces the occurrence that starts
  earliest.
\<close>

lemma replace_first_present:
  "js_includes s pat \<Longrightarrow>
     \<exists>pre post. s = pre @ pat @ post \<and> replace_first pat rep s = pre @ rep @ post
       \<and> (\<forall>pre' post'. s = pre' @ pat @ post' \<longrightarrow> length pre \<le> length pre')"
proof (induction s)
  case Nil
  then show ?case by simp
next
  case (Cons c cs)
  show ?case
  proof (cases "prefix pat (c # cs)")
    case True
    then obtain post where p: "c # cs = pat @ post" by (auto simp: prefix_def)
    then have "drop (length pat) (c # cs) = post" by (metis append_eq_conv_conj)
    then have "replace_first pat rep (c # cs) = [] @ rep @ post" using True by simp
    moreover have "c # cs = [] @ pat @ post" using p by simp
    ultimately show ?thesis by (metis list.size(3) le0)
  next
    case False
    then have "js_includes cs pat" using Cons.prems by simp
    then obtain pre post where IH: "cs = pre @ pat @ post"
      "replace_first pat rep cs = pre @ rep @ post"
      "\<forall>pre' post'. cs = pre' @ pat @ post' \<longrightarrow> length pre \<le> length pre'"
      using Cons.IH by blast
    have a: "c # cs = (c # pre) @ pat @ post" using IH(1) by simp
    have b: "replace_first pat rep (c # cs) = (c # pre) @ rep @ post" using False IH(2) by simp
    have c: "\<forall>pre' post'. c # cs = pre' @ pat @ post' \<longrightarrow> length (c # pre) \<le> length pre'"
    proof (intro allI impI)
      fix pre' post' assume e: "c # cs = pre' @ pat @ post'"
      show "length (c # pre) \<le> length pre'"
      proof (cases pre')
        case Nil
        then have "prefix pat (c # cs)" using e by (simp add: prefix_def)
        then show ?thesis using False by simp
      next
        case (Cons a p')
        then have "cs = p' @ pat @ post'" using e by simp
        then have "length pre \<le> length p'" using IH(3) by blast
        then show ?thesis using Cons by simp
      qed
    qed
    show ?thesis using a b c by blast
  qed
qed

section \<open>The AI provider client: verified claims\<close>

lemmas generateWith_defs =
  generateWithGemini_def generateWithOpenAI_def generateWithAnthropic_def generateWithGitHub_def

text \<open>
  Claim C1. When the POST of \<open>generateCommitMessage\<close> ends in an axios error that
  carries an HTTP status: status 401 gives an \<open>InvalidCredentials\<close> error for every
  provider; for gemini, 403 gives \<open>InvalidCredentials\<close> as well and 429 gives
  \<open>RateLimited\<close>; for openai, anthropic and github, 403 and 429 give the generic
  \<open>ProviderError\<close>.
\<close>

theorem http_status_error_kinds:
  assumes "post (ai_request p diff k) = AxiosError (Some status) msg"
  shows "(status = 401 \<longrightarrow>
            fails_as (generateCommitMessage post diff p k) InvalidCredentials)
       \<and> (p = Gemini \<and> status = 403 \<longrightarrow>
            fails_as (generateCommitMessage post diff p k) InvalidCredentials)
       \<and> (p = Gemini \<and> status = 429 \<longrightarrow>
            fails_as (generateCommitMessage post diff p k) RateLimited)
       \<and> (p \<noteq> Gemini \<and> (status = 403 \<or> status = 429) \<longrightarrow>
            fails_as (generateCommitMessage post diff p k) ProviderError)"
  using assms by (cases p) (auto simp: generateWith_defs)

theorem http_status_error_kinds_witness:
  "fails_as (generateCommitMessage (\<lambda>r. AxiosError (Some 401) ''Request failed with status code 401'')
       ''diff --git a/x b/x'' Anthropic ''sk-1'') InvalidCredentials
   \<and> fails_as (generateCommitMessage (\<lambda>r. AxiosError (Some 403) ''Request failed with status code 403'')
       ''diff --git a/x b/x'' Gemini ''sk-1'') InvalidCredentials
   \<and> fails_as (generateCommitMessage (\<lambda>r. AxiosError (Some 429) ''Request failed with status code 429'')
       ''diff --git a/x b/x'' Gemini ''sk-1'') RateLimited
   \<and> fails_as (generateCommitMessage (\<lambda>r. AxiosError (Some 403) ''Request failed with status code 403'')
       ''diff --git a/x b/x'' OpenAI ''sk-1'') ProviderError
   \<and> fails_as (generateCommitMessage (\<lambda>r. AxiosError (Some 429) ''Request failed with status code 429'')
       ''diff --git a/x b/x'' GitHub ''sk-1'') ProviderError"
  using
    http_status_error_kinds [of "\<lambda>r. AxiosError (Some 401) ''Request failed with status code 401''"
      Anthropic "''diff --git a/x b/x''" "''sk-1''" 401 "''Request failed with status code 401''"]
    http_status_error_kinds [of "\<lambda>r. AxiosError (Some 403) ''Request failed with status code 403''"
      Gemini "''diff --git a/x b/x''" "''sk-1''" 403 "''Request failed with status code 403''"]
    http_status_error_kinds [of "\<lambda>r. AxiosError (Some 429) ''Request failed with status code 429''"
      Gemini "''diff --git a/x b/x''" "''sk-1''" 429 "''Request failed with status code 429''"]
    http_status_error_kinds [of "\<lambda>r. AxiosError (Some 403) ''Request failed with status code 403''"
      OpenAI "''diff --git a/x b/x''" "''sk-1''" 403 "''Request failed with status code 403''"]
    http_status_error_kinds [of "\<lambda>r. AxiosError (Some 429) ''Request failed with status code 429''"
      GitHub "''diff --git a/x b/x''" "''sk-1''" 429 "''Request failed with status code 429''"]
  by simp

text \<open>
  Claim C4. For every provider, when the POST succeeds and the payload holds a
  (non-empty) text \<open>t\<close> at the documented response path, \<open>generateCommitMessage\<close>
  returns \<open>trim t\<close>: \<open>t\<close> with a prefix and a suffix of white space removed, so that
  what is left neither starts nor ends with white space.
\<close>

theorem response_text_trimmed:
  assumes "post (ai_request p diff k) = Response data"
    and "optional_chain data (documented_path p) = JStr t"
    and "t \<noteq> []"
  shows "generateCommitMessage post diff p k = Inr (trim t)
       \<and> (\<exists>pre suf. t = pre @ trim t @ suf \<and>
             list_all is_js_whitespace pre \<and> list_all is_js_whitespace suf)
       \<and> (trim t \<noteq> [] \<longrightarrow>
             \<not> is_js_whitespace (hd (trim t)) \<and> \<not> is_js_whitespace (last (trim t)))"
proof -
  have "generateCommitMessage post diff p k = Inr (trim t)"
    using assms by (cases p) (simp_all add: generateWith_defs)
  then show ?thesis
    using trim_decompose [of t] trim_ends [of t] by blast
qed

theorem response_text_trimmed_witness:
  "generateCommitMessage
     (\<lambda>r. Response (JObj [(''candidates'', JArr [JObj [(''content'',
        JObj [(''parts'', JArr [JObj [(''text'', JStr ''  feat: add x '')]])])]])]))
     ''diff --git a/x b/x'' Gemini ''sk-1'' = Inr ''feat: add x''
   \<and> generateCommitMessage
     (\<lambda>r. Response (JObj [(''choices'', JArr [JObj [(''message'',
        JObj [(''content'', JStr ''  feat: add x '')])]])]))
     ''diff --git a/x b/x'' OpenAI ''sk-1'' = Inr ''feat: add x''
   \<and> generateCommitMessage
     (\<lambda>r. Response (JObj [(''content'', JArr [JObj [(''text'', JStr ''  feat: add x '')]])]))
     ''diff --git a/x b/x'' Anthropic ''sk-1'' = Inr ''feat: add x''
   \<and> generateCommitMessage
     (\<lambda>r. Response (JObj [(''choices'', JArr [JObj [(''message'',
        JObj [(''content'', JStr ''  feat: add x '')])]])]))
     ''diff --git a/x b/x'' GitHub ''sk-1'' = Inr ''feat: add x''"
  using
    response_text_trimmed [of
      "\<lambda>r. Response (JObj [(''candidates'', JArr [JObj [(''content'',
        JObj [(''parts'', JArr [JObj [(''text'', JStr ''  feat: add x '')]])])]])])"
      Gemini "''diff --git a/x b/x''" "''sk-1''" _ "''  feat: add x ''"]
    response_text_trimmed [of
      "\<lambda>r. Response (JObj [(''choices'', JArr [JObj [(''message'',
        JObj [(''content'', JStr ''  feat: add x '')])]])])"
      OpenAI "''diff --git a/x b/x''" "''sk-1''" _ "''  feat: add x ''"]
    response_text_trimmed [of
      "\<lambda>r. Response (JObj [(''content'', JArr [JObj [(''text'', JStr ''  feat: add x '')]])])"
      Anthropic "''diff --git a/x b/x''" "''sk-1''" _ "''  feat: add x ''"]
    response_text_trimmed [of
      "\<lambda>r. Response (JObj [(''choices'', JArr [JObj [(''message'',
        JObj [(''content'', JStr ''  feat: add x '')])]])])"
      GitHub "''diff --git a/x b/x''" "''sk-1''" _ "''  feat: add x ''"]
  by (simp add: optional_chain_def trim_def is_js_whitespace_def)

text \<open>
  Claim C5. For every provider, when the POST succeeds, \<open>generateCommitMessage\<close> fails
  with an \<open>EmptyResponse\<close> error (it returns no string, and the error has no other
  kind) exactly when the value at the documented response path is falsy: absent
  (\<^verbatim>\<open>undefined\<close>), \<^verbatim>\<open>null\<close>, the empty string, \<^verbatim>\<open>0\<close> or \<^verbatim>\<open>false\<close>.
\<close>

theorem empty_response_kind:
  assumes "post (ai_request p diff k) = Response data"
  shows "fails_as (generateCommitMessage post diff p k) EmptyResponse
     \<longleftrightarrow> \<not> truthy (optional_chain data (documented_path p))"
  using assms
  by (cases p; cases "optional_chain data (documented_path p)")
     (simp_all add: generateWith_defs)

theorem empty_response_kind_witness:
  "fails_as (generateCommitMessage (\<lambda>r. Response (JObj [(''candidates'', JArr [])]))
       ''diff --git a/x b/x'' Gemini ''sk-1'') EmptyResponse
   \<and> fails_as (generateCommitMessage
       (\<lambda>r. Response (JObj [(''choices'', JArr [JObj [(''message'', JObj [(''content'', JStr [])])]])]))
       ''diff --git a/x b/x'' OpenAI ''sk-1'') EmptyResponse
   \<and> fails_as (generateCommitMessage
       (\<lambda>r. Response (JObj [(''content'', JArr [JObj [(''text'', JNull)]])]))
       ''diff --git a/x b/x'' Anthropic ''sk-1'') EmptyResponse
   \<and> fails_as (generateCommitMessage (\<lambda>r. Response JUndefined)
       ''diff --git a/x b/x'' GitHub ''sk-1'') EmptyResponse"
  using
    empty_response_kind [of "\<lambda>r. Response (JObj [(''candidates'', JArr [])])"
      Gemini "''diff --git a/x b/x''" "''sk-1''"]
    empty_response_kind [of
      "\<lambda>r. Response (JObj [(''choices'', JArr [JObj [(''message'', JObj [(''content'', JStr [])])]])])"
      OpenAI "''diff --git a/x b/x''" "''sk-1''"]
    empty_response_kind [of "\<lambda>r. Response (JObj [(''content'', JArr [JObj [(''text'', JNull)]])])"
      Anthropic "''diff --git a/x b/x''" "''sk-1''"]
    empty_response_kind [of "\<lambda>r. Response JUndefined" GitHub "''diff --git a/x b/x''" "''sk-1''"]
  by (simp add: optional_chain_def)

section \<open>The config store: verified claims\<close>

lemmas config_defs = getConfig_def existsSync_def read_and_parse_def saveConfig_def
  getApiKey_def getAiProvider_def setApiKey_def isSetupComplete_def unlinkSync_def clearConfig_def

lemma own_property_set_own_same: "own_property (set_own kvs name v) name = v"
  by (induction kvs name v rule: set_own.induct) auto

lemma own_property_set_own_other:
  "other \<noteq> name \<Longrightarrow> own_property (set_own kvs name v) other = own_property kvs other"
  by (induction kvs name v rule: set_own.induct) auto

lemma setApiKey_on_object:
  assumes "getConfig f = JObj kvs" and "\<not> write_fails f"
  shows "setApiKey p k f =
     Inr (f\<lparr> content := Holds (JObj (set_own (set_own (set_own kvs ''aiProvider'' (provider_value p))
                                    ''apiKey'' (JStr k)) ''setupComplete'' (JBool True))) \<rparr>)"
  using assms by (simp add: setApiKey_def saveConfig_def)

lemma getConfig_shapes:
  assumes "content f = NoFile \<or> content f = NotJson \<or> (\<exists>kvs. content f = Holds (JObj kvs))"
  shows "\<exists>kvs. getConfig f = JObj kvs"
  using assms by (auto simp: getConfig_def existsSync_def read_and_parse_def)

text \<open>
  Claim C6 as it is stated fails when the config file holds JSON that is not an
  object, and when the file cannot be removed. On the text \<^verbatim>\<open>[]\<close>, \<open>setApiKey\<close>
  sets the three fields on an array, \<^verbatim>\<open>JSON.stringify\<close> writes \<^verbatim>\<open>[]\<close> back, and
  \<open>getConfig\<close> returns an array with no \<open>setupComplete\<close>. On the text \<^verbatim>\<open>null\<close>,
  \<open>setApiKey\<close> throws and saves nothing. And when the removal of the file is
  refused, \<open>clearConfig\<close> returns \<open>false\<close> and \<open>getConfig\<close> still returns the old
  configuration.
\<close>

theorem config_round_trip_fails:
  "setApiKey Gemini ''sk-1''
      \<lparr> content = Holds (JArr []), read_fails = False, write_fails = False, unlink_fails = False \<rparr>
     = Inr \<lparr> content = Holds (JArr []), read_fails = False, write_fails = False,
             unlink_fails = False \<rparr>
   \<and> get_property (getConfig \<lparr> content = Holds (JArr []), read_fails = False,
        write_fails = False, unlink_fails = False \<rparr>) ''setupComplete'' = Inr JUndefined
   \<and> setApiKey Gemini ''sk-1''
      \<lparr> content = Holds JNull, read_fails = False, write_fails = False, unlink_fails = False \<rparr>
     = Inl (TypeError (''Cannot set properties of null (setting '' @ quoted ''aiProvider'' @ '')''))
   \<and> clearConfig \<lparr> content = Holds (JObj [(''apiKey'', JStr ''sk-1'')]), read_fails = False,
        write_fails = False, unlink_fails = True \<rparr>
     = (False, \<lparr> content = Holds (JObj [(''apiKey'', JStr ''sk-1'')]), read_fails = False,
        write_fails = False, unlink_fails = True \<rparr>)
   \<and> getConfig \<lparr> content = Holds (JObj [(''apiKey'', JStr ''sk-1'')]), read_fails = False,
        write_fails = False, unlink_fails = True \<rparr> = JObj [(''apiKey'', JStr ''sk-1'')]"
  by (simp add: config_defs)

text \<open>
  Claim C6, amended. For every provider \<open>p\<close> and key \<open>k\<close> (empty or not): when the
  config file is missing, is not JSON or holds a JSON object, and it can be read and
  written, \<open>setApiKey p k\<close> returns, and \<open>getConfig\<close> then returns a configuration
  whose \<open>setupComplete\<close> is \<open>true\<close>, whose \<open>aiProvider\<close> is \<open>p\<close> and whose
  \<open>apiKey\<close> is \<open>k\<close>. And when the file can be removed, \<open>getConfig\<close> after
  \<open>clearConfig\<close> returns the empty object.
\<close>

theorem config_round_trip_on_objects:
  "(( content f = NoFile \<or> content f = NotJson \<or> (\<exists>kvs. content f = Holds (JObj kvs)) )
      \<and> \<not> read_fails f \<and> \<not> write_fails f
     \<longrightarrow> (\<exists>f'. setApiKey p k f = Inr f'
            \<and> get_property (getConfig f') ''setupComplete'' = Inr (JBool True)
            \<and> get_property (getConfig f') ''aiProvider'' = Inr (provider_value p)
            \<and> get_property (getConfig f') ''apiKey'' = Inr (JStr k)))
   \<and> (\<not> unlink_fails f \<longrightarrow> getConfig (snd (clearConfig f)) = JObj [])"
proof (intro conjI impI)
  assume a: "( content f = NoFile \<or> content f = NotJson \<or> (\<exists>kvs. content f = Holds (JObj kvs)) )
      \<and> \<not> read_fails f \<and> \<not> write_fails f"
  then obtain kvs where g: "getConfig f = JObj kvs" using getConfig_shapes by blast
  let ?new = "set_own (set_own (set_own kvs ''aiProvider'' (provider_value p))
                                    ''apiKey'' (JStr k)) ''setupComplete'' (JBool True)"
  let ?f' = "f\<lparr> content := Holds (JObj ?new) \<rparr>"
  have s: "setApiKey p k f = Inr ?f'" using g a by (simp add: setApiKey_on_object)
  have c: "getConfig ?f' = JObj ?new"
    using a by (simp add: getConfig_def existsSync_def read_and_parse_def)
  have 1: "own_property ?new ''setupComplete'' = JBool True"
    by (rule own_property_set_own_same)
  have 2: "own_property ?new ''apiKey'' = JStr k"
    by (simp add: own_property_set_own_other own_property_set_own_same del: own_property.simps)
  have 3: "own_property ?new ''aiProvider'' = provider_value p"
    by (simp add: own_property_set_own_other own_property_set_own_same del: own_property.simps)
  show "\<exists>f'. setApiKey p k f = Inr f'
            \<and> get_property (getConfig f') ''setupComplete'' = Inr (JBool True)
            \<and> get_property (getConfig f') ''aiProvider'' = Inr (provider_value p)
            \<and> get_property (getConfig f') ''apiKey'' = Inr (JStr k)"
    using s c 1 2 3 by (intro exI [of _ ?f']) (simp del: own_property.simps)
next
  assume "\<not> unlink_fails f"
  then show "getConfig (snd (clearConfig f)) = JObj []"
    by (simp add: config_defs)
qed

theorem config_round_trip_on_objects_witness:
  "(\<exists>f'. setApiKey OpenAI ''sk-2''
        \<lparr> content = Holds (JObj [(''apiKey'', JStr ''old''), (''theme'', JStr ''dark'')]),
          read_fails = False, write_fails = False, unlink_fails = False \<rparr> = Inr f'
      \<and> get_property (getConfig f') ''setupComplete'' = Inr (JBool True)
      \<and> get_property (getConfig f') ''aiProvider'' = Inr (provider_value OpenAI)
      \<and> get_property (getConfig f') ''apiKey'' = Inr (JStr ''sk-2''))
   \<and> (\<exists>f'. setApiKey Gemini ''sk-1''
        \<lparr> content = NoFile, read_fails = False, write_fails = False, unlink_fails = False \<rparr>
          = Inr f'
      \<and> get_property (getConfig f') ''setupComplete'' = Inr (JBool True)
      \<and> get_property (getConfig f') ''aiProvider'' = Inr (provider_value Gemini)
      \<and> get_property (getConfig f') ''apiKey'' = Inr (JStr ''sk-1''))
   \<and> getConfig (snd (clearConfig
        \<lparr> content = Holds (JObj [(''apiKey'', JStr ''old'')]),
          read_fails = False, write_fails = False, unlink_fails = False \<rparr>)) = JObj []"
  using
    config_round_trip_on_objects [of "\<lparr> content = Holds (JObj [(''apiKey'', JStr ''old''), (''theme'', JStr ''dark'')]),
          read_fails = False, write_fails = False, unlink_fails = False \<rparr>" OpenAI "''sk-2''"]
    config_round_trip_on_objects [of "\<lparr> content = NoFile, read_fails = False, write_fails = False, unlink_fails = False \<rparr>"
          Gemini "''sk-1''"]
    config_round_trip_on_objects [of "\<lparr> content = Holds (JObj [(''apiKey'', JStr ''old'')]),
          read_fails = False, write_fails = False, unlink_fails = False \<rparr>" Gemini "''sk-1''"]
  by simp

section \<open>The repository name of the \<^verbatim>\<open>delete\<close> command: verified claims\<close>

text \<open>
  The lazy group before a final \<^verbatim>\<open>.git\<close>: it takes all of a non-empty segment
  without line terminators, and no less.
\<close>

lemma lazy_group_before_dot_git:
  "segment \<noteq> [] \<Longrightarrow> \<not> list_ex is_line_terminator segment \<Longrightarrow>
     lazy_group taken (segment @ ''.git'') = Some (taken @ segment)"
proof (induction segment arbitrary: taken)
  case Nil
  then show ?case by simp
next
  case (Cons c cs)
  show ?case
  proof (cases "cs = []")
    case True
    then show ?thesis using Cons.prems by simp
  next
    case False
    then have "length (cs @ ''.git'') \<noteq> length ''.git''" by simp
    then have "cs @ ''.git'' \<noteq> ''.git''" by metis
    moreover have "lazy_group (taken @ [c]) (cs @ ''.git'') = Some ((taken @ [c]) @ cs)"
      using Cons.IH [of "taken @ [c]"] False Cons.prems by simp
    ultimately show ?thesis using Cons.prems by simp
  qed
qed

lemma match_https:
  "match_at_start (''github.com/'' @ rest) = lazy_group [] rest"
  by (simp add: match_at_start_def)

lemma match_ssh:
  "match_at_start (''github.com:'' @ rest) = lazy_group [] rest"
  by (simp add: match_at_start_def)

lemma repoMatch_https:
  "lazy_group [] rest = Some g \<Longrightarrow> repoMatch (''https://github.com/'' @ rest) = Some g"
  using match_https [of rest] by (simp add: match_at_start_def)

lemma repoMatch_ssh:
  "lazy_group [] rest = Some g \<Longrightarrow> repoMatch (''git@github.com:'' @ rest) = Some g"
  using match_ssh [of rest] by (simp add: match_at_start_def)

text \<open>
  Claim C7. For every non-empty segment without line terminators, the HTTPS form
  \<^verbatim>\<open>https://github.com/<segment>.git\<close> and the SSH form
  \<^verbatim>\<open>git@github.com:<segment>.git\<close> both match with the segment as group 1, and,
  when the segment does not contain \<^verbatim>\<open>.git\<close> itself, both give the segment as the
  repository name. So \<^verbatim>\<open>https://github.com/user/repo.git\<close> and
  \<^verbatim>\<open>git@github.com:user/repo.git\<close> both give \<^verbatim>\<open>user/repo\<close>.
\<close>

theorem repoName_https_and_ssh:
  "(segment \<noteq> [] \<and> \<not> list_ex is_line_terminator segment \<longrightarrow>
      repoMatch (''https://github.com/'' @ segment @ ''.git'') = Some segment
    \<and> repoMatch (''git@github.com:'' @ segment @ ''.git'') = Some segment
    \<and> (\<not> js_includes segment ''.git'' \<longrightarrow>
          repoName (''https://github.com/'' @ segment @ ''.git'') = Some segment
        \<and> repoName (''git@github.com:'' @ segment @ ''.git'') = Some segment))
   \<and> repoName ''https://github.com/user/repo.git'' = Some ''user/repo''
   \<and> repoName ''git@github.com:user/repo.git'' = Some ''user/repo''
   \<and> repoMatch ''https://github.com/user/repo.git'' = Some ''user/repo''
   \<and> repoMatch ''git@github.com:user/repo.git'' = Some ''user/repo''"
proof -
  have general: "repoMatch (''https://github.com/'' @ s @ ''.git'') = Some s
      \<and> repoMatch (''git@github.com:'' @ s @ ''.git'') = Some s"
    if "s \<noteq> []" "\<not> list_ex is_line_terminator s" for s
    using lazy_group_before_dot_git [OF that, of "[]"] repoMatch_https repoMatch_ssh by simp
  have name: "repoName (''https://github.com/'' @ s @ ''.git'') = Some s
      \<and> repoName (''git@github.com:'' @ s @ ''.git'') = Some s"
    if "s \<noteq> []" "\<not> list_ex is_line_terminator s" "\<not> js_includes s ''.git''" for s
    using general [OF that(1,2)] that(3) by (simp add: repoName_def replace_first_absent)
  have concrete: "repoName ''https://github.com/user/repo.git'' = Some ''user/repo''
   \<and> repoName ''git@github.com:user/repo.git'' = Some ''user/repo''
   \<and> repoMatch ''https://github.com/user/repo.git'' = Some ''user/repo''
   \<and> repoMatch ''git@github.com:user/repo.git'' = Some ''user/repo''"
    by (simp add: repoName_def match_at_start_def is_line_terminator_def)
  show ?thesis using general name concrete by blast
qed

theorem repoName_https_and_ssh_witness:
  "repoMatch (''https://github.com/'' @ ''octo-org/my_tool'' @ ''.git'') = Some ''octo-org/my_tool''
   \<and> repoMatch (''git@github.com:'' @ ''octo-org/my_tool'' @ ''.git'') = Some ''octo-org/my_tool''
   \<and> repoName (''https://github.com/'' @ ''octo-org/my_tool'' @ ''.git'') = Some ''octo-org/my_tool''
   \<and> repoName (''git@github.com:'' @ ''octo-org/my_tool'' @ ''.git'') = Some ''octo-org/my_tool''
   \<and> repoName (''https://github.com/'' @ ''user/repo'' @ ''.git'') = Some ''user/repo''
   \<and> repoName (''git@github.com:'' @ ''user/repo'' @ ''.git'') = Some ''user/repo''"
proof -
  have a: "''octo-org/my_tool'' \<noteq> [] \<and> \<not> list_ex is_line_terminator ''octo-org/my_tool''"
    by (simp add: is_line_terminator_def)
  have b: "\<not> js_includes ''octo-org/my_tool'' ''.git''" by simp
  have c: "''user/repo'' \<noteq> [] \<and> \<not> list_ex is_line_terminator ''user/repo''"
    by (simp add: is_line_terminator_def)
  have d: "\<not> js_includes ''user/repo'' ''.git''" by simp
  show ?thesis
    using repoName_https_and_ssh [of "''octo-org/my_tool''"] repoName_https_and_ssh [of "''user/repo''"] a b c d by blast
qed

text \<open>
  Claim C10. Let \<open>segment\<close> be group 1 of the match on the remote URL. When
  \<open>segment\<close> contains \<^verbatim>\<open>.git\<close>, the repository name is \<open>segment\<close> with its first
  (leftmost) occurrence of \<^verbatim>\<open>.git\<close> removed, and so differs from \<open>segment\<close>;
  when \<open>segment\<close> does not contain \<^verbatim>\<open>.git\<close>, the repository name is \<open>segment\<close>.
\<close>

theorem repoName_removes_first_dot_git:
  assumes "repoMatch remoteUrl = Some segment"
  shows "(js_includes segment ''.git'' \<longrightarrow>
            (\<exists>pre post. segment = pre @ ''.git'' @ post
               \<and> (\<forall>pre' post'. segment = pre' @ ''.git'' @ post' \<longrightarrow> length pre \<le> length pre')
               \<and> repoName remoteUrl = Some (pre @ post))
            \<and> repoName remoteUrl \<noteq> Some segment)
       \<and> (\<not> js_includes segment ''.git'' \<longrightarrow> repoName remoteUrl = Some segment)"
proof (intro conjI impI)
  assume inc: "js_includes segment ''.git''"
  from replace_first_present [OF inc, of "[]"]
  obtain pre post where f: "segment = pre @ ''.git'' @ post"
    "replace_first ''.git'' [] segment = pre @ post"
    "\<forall>pre' post'. segment = pre' @ ''.git'' @ post' \<longrightarrow> length pre \<le> length pre'"
    by auto
  have n: "repoName remoteUrl = Some (pre @ post)"
    using assms f(2) by (simp add: repoName_def)
  show "\<exists>pre post. segment = pre @ ''.git'' @ post
      \<and> (\<forall>pre' post'. segment = pre' @ ''.git'' @ post' \<longrightarrow> length pre \<le> length pre')
      \<and> repoName remoteUrl = Some (pre @ post)"
    using f(1) f(3) n by blast
  have "length (pre @ post) \<noteq> length segment" using f(1) by simp
  then have "pre @ post \<noteq> segment" by blast
  then show "repoName remoteUrl \<noteq> Some segment" using n by simp
next
  assume "\<not> js_includes segment ''.git''"
  then show "repoName remoteUrl = Some segment"
    using assms by (simp add: repoName_def replace_first_absent)
qed

theorem repoName_removes_first_dot_git_witness:
  "repoMatch ''https://github.com/user/my.gitrepo.git'' = Some ''user/my.gitrepo''
   \<and> repoName ''https://github.com/user/my.gitrepo.git'' = Some ''user/myrepo''
   \<and> repoName ''https://github.com/user/my.gitrepo.git'' \<noteq> Some ''user/my.gitrepo''
   \<and> repoMatch ''git@github.com:user/repo'' = Some ''user/repo''
   \<and> repoName ''git@github.com:user/repo'' = Some ''user/repo''"
  using
    repoName_removes_first_dot_git [of "''https://github.com/user/my.gitrepo.git''" "''user/my.gitrepo''"]
    repoName_removes_first_dot_git [of "''git@github.com:user/repo''" "''user/repo''"]
  by (simp add: repoName_def match_at_start_def is_line_terminator_def)

section \<open>The shell adapter: verified claims\<close>

lemmas io_defs = ret_def throw_def process_exit_def bnd_def try_catch_def execa_def
  read_config_def run_setApiKey_def run_generateCommitMessage_def installGhCli_def
  selectAiProvider_def confirm_def inputApiKey_def

text \<open>
  Claim C8. When the branch query prints \<open>out\<close>, \<open>getCurrentBranch\<close> returns
  \<open>trim out\<close> when that is not empty, and \<^verbatim>\<open>main\<close> when it is empty; for the output
  \<^verbatim>\<open>main\<close> followed by a newline it returns \<^verbatim>\<open>main\<close>.
\<close>

theorem getCurrentBranch_trims_or_defaults:
  assumes "execa_result E (spawned w) (''git'', [''branch'', ''--show-current'']) = Stdout out"
  shows "(trim out \<noteq> [] \<longrightarrow> fst (getCurrentBranch E w) = Return (trim out))
       \<and> (trim out = [] \<longrightarrow> fst (getCurrentBranch E w) = Return ''main'')
       \<and> (out = ''main'' @ [CHR 0x0A] \<longrightarrow> fst (getCurrentBranch E w) = Return ''main'')"
proof -
  have r: "fst (getCurrentBranch E w) = Return (if trim out \<noteq> [] then trim out else ''main'')"
    using assms by (simp add: getCurrentBranch_def io_defs Let_def)
  have m: "trim (''main'' @ [CHR 0x0A]) = ''main''"
    by (simp add: trim_def is_js_whitespace_def)
  show ?thesis using r m by auto
qed

theorem getCurrentBranch_trims_or_defaults_witness:
  "fst (getCurrentBranch
      ((example_env ''origin'' (Response JNull))
         \<lparr> execa_result := (\<lambda>before c. Stdout (''main'' @ [CHR 0x0A])) \<rparr>)
      (example_world NoFile [] [] [])) = Return ''main''
   \<and> fst (getCurrentBranch
      ((example_env ''origin'' (Response JNull))
         \<lparr> execa_result := (\<lambda>before c. Stdout '' feature/x '') \<rparr>)
      (example_world NoFile [] [] [])) = Return ''feature/x''
   \<and> fst (getCurrentBranch (example_env ''origin'' (Response JNull))
      (example_world NoFile [] [] [])) = Return ''main''"
  using
    getCurrentBranch_trims_or_defaults [of
      "(example_env ''origin'' (Response JNull))
         \<lparr> execa_result := (\<lambda>before c. Stdout (''main'' @ [CHR 0x0A])) \<rparr>"
      "example_world NoFile [] [] []" "''main'' @ [CHR 0x0A]"]
    getCurrentBranch_trims_or_defaults [of
      "(example_env ''origin'' (Response JNull))
         \<lparr> execa_result := (\<lambda>before c. Stdout '' feature/x '') \<rparr>"
      "example_world NoFile [] [] []" "'' feature/x ''"]
    getCurrentBranch_trims_or_defaults [of "example_env ''origin'' (Response JNull)"
      "example_world NoFile [] [] []" "[]"]
  by (simp add: example_env_def example_world_def trim_def is_js_whitespace_def)

section \<open>Which subprocesses the calls spawn\<close>

lemma spawns_only_ret: "spawns_only P (ret x)"
  by (simp add: spawns_only_def ret_def)

lemma spawns_only_throw: "spawns_only P (throw e)"
  by (simp add: spawns_only_def throw_def)

lemma spawns_only_exit: "spawns_only P (process_exit n)"
  by (simp add: spawns_only_def process_exit_def)

lemma spawns_only_bnd:
  assumes "spawns_only P m" and "\<And>x. spawns_only P (f x)"
  shows "spawns_only P (bnd m f)"
  unfolding spawns_only_def
proof
  fix w
  obtain r w1 where m: "m w = (r, w1)" by (cases "m w")
  from assms(1) obtain n1 where n1: "spawned w1 = spawned w @ n1" "list_all P n1"
    unfolding spawns_only_def using m by (metis snd_conv)
  show "\<exists>new. spawned (snd (bnd m f w)) = spawned w @ new \<and> list_all P new"
  proof (cases r)
    case (Return x)
    from assms(2)[of x] obtain n2 where n2: "spawned (snd (f x w1)) = spawned w1 @ n2" "list_all P n2"
      unfolding spawns_only_def by blast
    have "bnd m f w = f x w1" using m Return by (simp add: bnd_def)
    then have "spawned (snd (bnd m f w)) = spawned w @ (n1 @ n2)" using n1 n2 by simp
    moreover have "list_all P (n1 @ n2)" using n1 n2 by simp
    ultimately show ?thesis by blast
  qed (use m n1 in \<open>auto simp: bnd_def\<close>)
qed

lemma spawns_only_try_catch:
  assumes "spawns_only P m" and "\<And>e. spawns_only P (h e)"
  shows "spawns_only P (try_catch m h)"
  unfolding spawns_only_def
proof
  fix w
  obtain r w1 where m: "m w = (r, w1)" by (cases "m w")
  from assms(1) obtain n1 where n1: "spawned w1 = spawned w @ n1" "list_all P n1"
    unfolding spawns_only_def using m by (metis snd_conv)
  show "\<exists>new. spawned (snd (try_catch m h w)) = spawned w @ new \<and> list_all P new"
  proof (cases r)
    case (Throw e)
    from assms(2)[of e] obtain n2 where n2: "spawned (snd (h e w1)) = spawned w1 @ n2" "list_all P n2"
      unfolding spawns_only_def by blast
    have "try_catch m h w = h e w1" using m Throw by (simp add: try_catch_def)
    then have "spawned (snd (try_catch m h w)) = spawned w @ (n1 @ n2)" using n1 n2 by simp
    moreover have "list_all P (n1 @ n2)" using n1 n2 by simp
    ultimately show ?thesis by blast
  qed (use m n1 in \<open>auto simp: try_catch_def\<close>)
qed

lemma spawns_only_execa: "P (bin, args) \<Longrightarrow> spawns_only P (execa E bin args)"
  by (auto simp: spawns_only_def execa_def Let_def split: exec_result.splits)

lemma spawns_only_if:
  "spawns_only P a \<Longrightarrow> spawns_only P b \<Longrightarrow> spawns_only P (if c then a else b)"
  by simp

lemma spawns_only_read_config: "spawns_only P (read_config g)"
  by (auto simp: spawns_only_def read_config_def split: sum.splits)

lemma spawns_only_run_setApiKey: "spawns_only P (run_setApiKey p k)"
  by (auto simp: spawns_only_def run_setApiKey_def split: sum.splits)

lemma spawns_only_run_generate: "spawns_only P (run_generateCommitMessage E d p k)"
  by (auto simp: spawns_only_def run_generateCommitMessage_def Let_def
        split: sum.splits option.splits)

lemma spawns_only_installGhCli: "spawns_only P (installGhCli E)"
  by (auto simp: installGhCli_def spawns_only_ret spawns_only_throw split: option.splits)

lemma spawns_only_selectAiProvider: "spawns_only P selectAiProvider"
  by (auto simp: spawns_only_def selectAiProvider_def split: list.splits)

lemma spawns_only_confirm: "spawns_only P (confirm msg)"
  by (auto simp: spawns_only_def confirm_def split: list.splits)

lemma spawns_only_inputApiKey: "spawns_only P (inputApiKey E p)"
  by (auto simp: spawns_only_def inputApiKey_def split: option.splits)

lemmas spawns_only_intros =
  spawns_only_ret spawns_only_throw spawns_only_exit spawns_only_bnd spawns_only_try_catch
  spawns_only_read_config spawns_only_run_setApiKey spawns_only_run_generate
  spawns_only_installGhCli spawns_only_selectAiProvider spawns_only_confirm spawns_only_inputApiKey
  spawns_only_if

lemma spawns_only_configure_ai: "spawns_only P (configure_ai E)"
  unfolding configure_ai_def by (intro spawns_only_intros)

lemmas git_defs = isGhInstalled_def isGhAuthenticated_def loginGh_def isGitRepo_def
  initGitRepo_def hasRemote_def createGitHubRepo_def stageAll_def getStagedDiff_def commit_def
  getCurrentBranch_def push_def hasStagedChanges_def hasChanges_def

lemmas check_defs = push_setup_gate_def push_check_gh_def push_check_auth_def
    push_check_ai_def push_check_repo_def push_check_remote_def push_check_changes_def

lemma checks_spawn_no_commit: "spawns_only (\<lambda>c. \<not> is_git_commit c) (push_checks E message)"
  unfolding push_checks_def push_config_checks_def push_repo_checks_def check_defs git_defs
  by (intro spawns_only_intros spawns_only_configure_ai spawns_only_execa)
     (simp_all add: is_git_commit_def)

lemma spawns_only_stored_ai: "spawns_only P (push_stored_ai E)"
  unfolding push_stored_ai_def
  by (intro spawns_only_intros) (auto split: option.splits simp: spawns_only_intros spawns_only_configure_ai)

lemma spawns_only_nothing:
  assumes "spawns_only (\<lambda>c. False) m"
  shows "spawned (snd (m w)) = spawned w"
proof -
  from assms obtain new where n: "spawned (snd (m w)) = spawned w @ new" "list_all (\<lambda>c. False) new"
    unfolding spawns_only_def by blast
  then have "new = []" by (cases new) auto
  then show ?thesis using n by simp
qed

section \<open>The remote check: verified claims\<close>

lemma hasRemote_result:
  "fst (hasRemote E w) =
     Return (case execa_result E (spawned w) (''git'', [''remote'']) of
               Stdout out \<Rightarrow> js_includes out ''origin'' | Failed msg \<Rightarrow> False)"
  by (simp add: hasRemote_def io_defs Let_def split: exec_result.splits)

lemma remote_check_skips_create:
  assumes "\<And>before. \<exists>out. execa_result E before (''git'', [''remote'']) = Stdout out \<and> js_includes out ''origin''"
  shows "spawns_only (\<lambda>c. \<not> is_repo_create c) (push_check_remote E)"
  unfolding spawns_only_def
proof
  fix w :: world
  from assms[of "spawned w"] obtain out where
    o: "execa_result E (spawned w) (''git'', [''remote'']) = Stdout out" "js_includes out ''origin''"
    by blast
  then have "push_check_remote E w = (Return (), w\<lparr> spawned := spawned w @ [(''git'', [''remote''])] \<rparr>)"
    by (simp add: push_check_remote_def hasRemote_def io_defs Let_def)
  then show "\<exists>new. spawned (snd (push_check_remote E w)) = spawned w @ new \<and> list_all (\<lambda>c. \<not> is_repo_create c) new"
    by (simp add: is_repo_create_def)
qed

lemma push_action_no_create:
  assumes "\<And>before. \<exists>out. execa_result E before (''git'', [''remote'']) = Stdout out \<and> js_includes out ''origin''"
  shows "spawns_only (\<lambda>c. \<not> is_repo_create c) (push_action E message)"
  unfolding push_action_def push_prepare_def push_checks_def push_config_checks_def
    push_repo_checks_def push_commit_message_def push_ai_message_def push_generate_def
    push_setup_gate_def push_check_gh_def push_check_auth_def
    push_check_ai_def push_check_repo_def push_check_changes_def
    isGhInstalled_def isGhAuthenticated_def loginGh_def isGitRepo_def
    initGitRepo_def stageAll_def getStagedDiff_def commit_def
    getCurrentBranch_def push_def hasChanges_def
  by (intro spawns_only_intros spawns_only_configure_ai spawns_only_execa spawns_only_stored_ai
        remote_check_skips_create [OF assms])
     (auto simp: is_repo_create_def spawns_only_intros spawns_only_configure_ai spawns_only_stored_ai
        intro!: spawns_only_intros spawns_only_execa split: option.splits prod.splits)

text \<open>
  Claim C9. \<open>hasRemote\<close> returns \<open>true\<close> exactly when \<^verbatim>\<open>git remote\<close> succeeds and
  its output contains \<^verbatim>\<open>origin\<close> somewhere (it has the form
  \<open>pre @ ''origin'' @ post\<close>); so it does for a sole remote named
  \<^verbatim>\<open>origin-backup\<close> or \<^verbatim>\<open>my-origin\<close>. And when \<^verbatim>\<open>git remote\<close> prints such an
  output, no run of \<^verbatim>\<open>push\<close> spawns \<^verbatim>\<open>gh repo create\<close>.
\<close>

theorem hasRemote_origin_substring:
  "fst (hasRemote E w) =
      Return (case execa_result E (spawned w) (''git'', [''remote'']) of
                Stdout out \<Rightarrow> js_includes out ''origin'' | Failed msg \<Rightarrow> False)
   \<and> (js_includes out ''origin'' \<longleftrightarrow> (\<exists>pre post. out = pre @ ''origin'' @ post))
   \<and> js_includes ''origin-backup'' ''origin''
   \<and> js_includes ''my-origin'' ''origin''
   \<and> ((\<forall>before. \<exists>out. execa_result E before (''git'', [''remote'']) = Stdout out
                       \<and> js_includes out ''origin'')
        \<longrightarrow> spawns_only (\<lambda>c. \<not> is_repo_create c) (push_action E message))"
proof (intro conjI impI)
  show "fst (hasRemote E w) =
      Return (case execa_result E (spawned w) (''git'', [''remote'']) of
                Stdout out \<Rightarrow> js_includes out ''origin'' | Failed msg \<Rightarrow> False)"
    by (rule hasRemote_result)
  show "js_includes out ''origin'' \<longleftrightarrow> (\<exists>pre post. out = pre @ ''origin'' @ post)"
    by (rule js_includes_iff)
  show "js_includes ''origin-backup'' ''origin''" by simp
  show "js_includes ''my-origin'' ''origin''" by simp
next
  assume "\<forall>before. \<exists>out. execa_result E before (''git'', [''remote'']) = Stdout out
                       \<and> js_includes out ''origin''"
  then show "spawns_only (\<lambda>c. \<not> is_repo_create c) (push_action E message)"
    by (intro push_action_no_create) blast
qed

theorem hasRemote_origin_substring_witness:
  "fst (hasRemote (example_env ''origin-backup'' (Response JNull))
          (example_world NoFile [] [] [])) = Return True
   \<and> fst (hasRemote (example_env ''my-origin'' (Response JNull))
          (example_world NoFile [] [] [])) = Return True
   \<and> fst (hasRemote (example_env ''upstream'' (Response JNull))
          (example_world NoFile [] [] [])) = Return False
   \<and> spawns_only (\<lambda>c. \<not> is_repo_create c)
        (push_action (example_env ''origin-backup'' (Response JNull)) None)"
proof -
  have h: "\<forall>before. \<exists>out.
      execa_result (example_env ''origin-backup'' (Response JNull)) before (''git'', [''remote''])
        = Stdout out \<and> js_includes out ''origin''"
    by (simp add: example_env_def)
  have a: "execa_result (example_env ''origin-backup'' (Response JNull))
      (spawned (example_world NoFile [] [] [])) (''git'', [''remote'']) = Stdout ''origin-backup''"
    by (simp add: example_env_def)
  have b: "execa_result (example_env ''my-origin'' (Response JNull))
      (spawned (example_world NoFile [] [] [])) (''git'', [''remote'']) = Stdout ''my-origin''"
    by (simp add: example_env_def)
  have c: "execa_result (example_env ''upstream'' (Response JNull))
      (spawned (example_world NoFile [] [] [])) (''git'', [''remote'']) = Stdout ''upstream''"
    by (simp add: example_env_def)
  show ?thesis
    using h
      hasRemote_origin_substring [of "example_env ''origin-backup'' (Response JNull)" "example_world NoFile [] [] []" "[]" None]
      hasRemote_origin_substring [of "example_env ''my-origin'' (Response JNull)" "example_world NoFile [] [] []" "[]" None]
      hasRemote_origin_substring [of "example_env ''upstream'' (Response JNull)" "example_world NoFile [] [] []" "[]" None]
    unfolding a b c by simp
qed

section \<open>The \<^verbatim>\<open>push\<close> command: verified claims\<close>

text \<open>
  What a run has spawned when the changes are staged, and what it spawns up to the
  call of the provider.
\<close>

lemma prepare_spawns:
  assumes "push_prepare E message w = (Return (), w1)"
  shows "\<exists>before. spawned w1 = spawned w @ before @ [(''git'', [''add'', ''.''])]
           \<and> list_all (\<lambda>c. \<not> is_git_commit c) before"
proof -
  obtain r w' where c: "push_checks E message w = (r, w')" by (cases "push_checks E message w")
  from checks_spawn_no_commit [of E message] obtain before where
    b: "spawned w' = spawned w @ before" "list_all (\<lambda>c. \<not> is_git_commit c) before"
    unfolding spawns_only_def using c by (metis snd_conv)
  have s: "r = Return () \<and> stageAll E w' = (Return (), w1)"
    using assms c by (cases r) (auto simp: push_prepare_def bnd_def)
  then have "spawned w1 = spawned w' @ [(''git'', [''add'', ''.''])]"
    by (auto simp: stageAll_def io_defs Let_def split: exec_result.splits)
  then show ?thesis using b by auto
qed

lemma stored_ai_spawns_nothing: "spawned (snd (push_stored_ai E w)) = spawned w"
  by (rule spawns_only_nothing) (rule spawns_only_stored_ai)

lemma getStagedDiff_returns:
  assumes "getStagedDiff E w = (Return d, w')"
  shows "w' = w\<lparr> spawned := spawned w @ [(''git'', [''diff'', ''--cached''])] \<rparr>"
  using assms by (auto simp: getStagedDiff_def io_defs Let_def split: exec_result.splits)

text \<open>For a provider name and a string key, the call is the typed one.\<close>

lemma generateCommitMessage_called_typed:
  "generateCommitMessage_called post d (provider_value p) (JStr k) = generateCommitMessage post d p k"
  by (cases p) (simp_all add: generateCommitMessage_called_def provider_value_def provider_of_value_def)

lemma push_generate_declined:
  assumes "generateCommitMessage_called (axios_post E (posted w)) d p k = Inl e"
    and "confirm_answers w = False # rest"
  shows "\<exists>w'. push_generate E d p k w = (Exit 1, w') \<and> spawned w' = spawned w"
  using assms by (auto simp: push_generate_def io_defs Let_def split: option.splits)

text \<open>
  Claim C3. A run of \<^verbatim>\<open>push\<close> without a message, in which the checks pass and the
  changes are staged, the provider and key are there and the staged diff is not
  empty: if \<open>generateCommitMessage\<close>, called with that provider and key, fails and
  the user answers no to the one offer to reconfigure, the process exits with code 1;
  the subprocesses of the whole run are some that are not \<^verbatim>\<open>git commit\<close>, then
  \<^verbatim>\<open>git add .\<close>, then \<^verbatim>\<open>git diff --cached\<close>, and nothing after: no commit is
  made, and nothing is run that would take the staged changes out of the index.
\<close>

theorem push_ai_failure_declined:
  assumes "\<not> has_message message"
    and "push_prepare E message w = (Return (), w1)"
    and "push_stored_ai E w1 = (Return (p, k), w2)"
    and "getStagedDiff E w2 = (Return d, w3)"
    and "d \<noteq> []"
    and "generateCommitMessage_called (axios_post E (posted w3)) d p k = Inl e"
    and "confirm_answers w3 = False # rest"
  shows "exit_code (fst (push_action E message w)) = Some 1
       \<and> (\<exists>before. spawned (snd (push_action E message w)) =
             spawned w @ before @ [(''git'', [''add'', ''.'']), (''git'', [''diff'', ''--cached''])]
           \<and> list_all (\<lambda>c. \<not> is_git_commit c) before)"
proof -
  from push_generate_declined [OF assms(6,7)] obtain w4 where
    g: "push_generate E d p k w3 = (Exit 1, w4)" and s4: "spawned w4 = spawned w3" by blast
  have m: "push_commit_message E message w1 = push_ai_message E w1"
    using assms(1) by (auto simp: push_commit_message_def has_message_def split: option.splits)
  have a: "push_ai_message E w1 = (Exit 1, w4)"
    using assms(3,4,5) g by (simp add: push_ai_message_def bnd_def)
  have r: "push_action E message w = (Exit 1, w4)"
    using assms(2) m a by (simp add: push_action_def bnd_def try_catch_def)
  from prepare_spawns [OF assms(2)] obtain before where
    b: "spawned w1 = spawned w @ before @ [(''git'', [''add'', ''.''])]"
       "list_all (\<lambda>c. \<not> is_git_commit c) before" by blast
  have "spawned w2 = spawned w1"
    using stored_ai_spawns_nothing [of E w1] assms(3) by simp
  moreover have "spawned w3 = spawned w2 @ [(''git'', [''diff'', ''--cached''])]"
    using getStagedDiff_returns [OF assms(4)] by simp
  ultimately have "spawned w4 =
      spawned w @ before @ [(''git'', [''add'', ''.'']), (''git'', [''diff'', ''--cached''])]"
    using b(1) s4 by simp
  then show ?thesis using r b(2) by auto
qed

theorem push_ai_failure_declined_witness:
  "exit_code (fst (push_action
      (example_env ''origin'' (AxiosError (Some 401) ''Request failed with status code 401''))
      None
      (example_world (Holds (JObj [(''aiProvider'', JStr ''gemini''), (''apiKey'', JStr ''sk-1''),
                                   (''setupComplete'', JBool True)])) [False] [] []))) = Some 1
   \<and> (\<exists>before. spawned (snd (push_action
      (example_env ''origin'' (AxiosError (Some 401) ''Request failed with status code 401''))
      None
      (example_world (Holds (JObj [(''aiProvider'', JStr ''gemini''), (''apiKey'', JStr ''sk-1''),
                                   (''setupComplete'', JBool True)])) [False] [] []))) =
        before @ [(''git'', [''add'', ''.'']), (''git'', [''diff'', ''--cached''])]
      \<and> list_all (\<lambda>c. \<not> is_git_commit c) before)"
proof -
  let ?E = "example_env ''origin'' (AxiosError (Some 401) ''Request failed with status code 401'')"
  let ?w = "example_world (Holds (JObj [(''aiProvider'', JStr ''gemini''), (''apiKey'', JStr ''sk-1''),
                                   (''setupComplete'', JBool True)])) [False] [] []"
  let ?w1 = "?w\<lparr> spawned := [(''gh'', [''--version'']), (''gh'', [''auth'', ''status'']),
      (''git'', [''rev-parse'', ''--is-inside-work-tree'']), (''git'', [''remote'']),
      (''git'', [''status'', ''--porcelain'']), (''git'', [''add'', ''.''])] \<rparr>"
  let ?w3 = "?w\<lparr> spawned := [(''gh'', [''--version'']), (''gh'', [''auth'', ''status'']),
      (''git'', [''rev-parse'', ''--is-inside-work-tree'']), (''git'', [''remote'']),
      (''git'', [''status'', ''--porcelain'']), (''git'', [''add'', ''.'']),
      (''git'', [''diff'', ''--cached''])] \<rparr>"
  have h1: "\<not> has_message None" by code_simp
  have h2: "push_prepare ?E None ?w = (Return (), ?w1)" by code_simp
  have h3: "push_stored_ai ?E ?w1 = (Return (JStr ''gemini'', JStr ''sk-1''), ?w1)" by code_simp
  have h4: "getStagedDiff ?E ?w1 = (Return ''diff --git a/file.ts b/file.ts'', ?w3)" by code_simp
  have h5: "''diff --git a/file.ts b/file.ts'' \<noteq> []" by simp
  have h6: "generateCommitMessage_called (axios_post ?E (posted ?w3))
      ''diff --git a/file.ts b/file.ts'' (JStr ''gemini'') (JStr ''sk-1'')
      = Inl (Error ''Invalid Gemini API key. Please run setup again.'')"
    by code_simp
  have h7: "confirm_answers ?w3 = False # []" by code_simp
  have s: "spawned ?w = []" by code_simp
  from push_ai_failure_declined [OF h1 h2 h3 h4 h5 h6 h7] s show ?thesis by simp
qed














end
